theory Spec2Isabelle
  imports Main
begin

section \<open>Candidate tracker (utils_v2/tracker.py)\<close>

text \<open>
  The tracker is one spreadsheet per position. Every operation of \<^verbatim>\<open>tracker.py\<close> reads the
  whole sheet into a pandas DataFrame, works on it and writes it back. The model follows
  that shape: a DataFrame is a list of column names with a list of rows, the file is a
  value that is threaded through each operation, and every early \<^verbatim>\<open>return\<close> and every
  \<^verbatim>\<open>except\<close> of the Python is a branch.

  Two parts of the environment are taken as given. The clock: \<^verbatim>\<open>datetime.now().strftime(...)\<close>
  is the argument \<open>today\<close>. The spreadsheet library: a workbook is identified with the
  DataFrame that \<^verbatim>\<open>pd.read_excel\<close> returns for it, and \<^verbatim>\<open>df.to_excel\<close> leaves a workbook
  that reads back as \<open>df\<close>; a failing write and the reader's own conversion of cell text
  are outside the model.
\<close>

subsection \<open>Text\<close>

text \<open>
  \<^verbatim>\<open>str.strip()\<close>, \<^verbatim>\<open>str.lower()\<close>, \<^verbatim>\<open>str.endswith\<close> and
  \<^verbatim>\<open>re.sub(r'[\s\-\(\)]', '', x)\<close> on ASCII text.
\<close>

definition is_space :: "char \<Rightarrow> bool" where
  "is_space c = (c \<in> set [CHR '' '', CHR 0x09, CHR 0x0A, CHR 0x0B, CHR 0x0C, CHR 0x0D,
                            CHR 0x1C, CHR 0x1D, CHR 0x1E, CHR 0x1F])"

definition strip :: "string \<Rightarrow> string" where
  "strip s = rev (dropWhile is_space (rev (dropWhile is_space s)))"

definition lower_char :: "char \<Rightarrow> char" where
  "lower_char c =
     (case map_of (zip ''ABCDEFGHIJKLMNOPQRSTUVWXYZ'' ''abcdefghijklmnopqrstuvwxyz'') c of
        Some d \<Rightarrow> d
      | None \<Rightarrow> c)"

definition lower :: "string \<Rightarrow> string" where
  "lower s = map lower_char s"

definition endswith :: "string \<Rightarrow> string \<Rightarrow> bool" where
  "endswith s suf = (length suf \<le> length s \<and> drop (length s - length suf) s = suf)"

definition re_sub_separators :: "string \<Rightarrow> string" where
  "re_sub_separators s =
     filter (\<lambda>c. \<not> (is_space c \<or> c = CHR ''-'' \<or> c = CHR ''('' \<or> c = CHR '')'')) s"

subsection \<open>Cells, dictionaries, DataFrames\<close>

text \<open>
  A cell is missing (\<open>NaN\<close>), text, or a number; a number is carried as the text that
  \<^verbatim>\<open>str()\<close> gives for it. The same type serves for the values of the
  \<^verbatim>\<open>candidate_details\<close> dictionary, where \<open>NaN\<close> stands for Python's \<^verbatim>\<open>None\<close>.
\<close>

datatype cell = NaN | Str string | Num string

fun astype_str :: "cell \<Rightarrow> string" where
  "astype_str NaN = ''nan''"
| "astype_str (Str s) = s"
| "astype_str (Num s) = s"

fun notna :: "cell \<Rightarrow> bool" where
  "notna NaN = False"
| "notna (Str s) = True"
| "notna (Num s) = True"

text \<open>Truth value of a dictionary value in \<^verbatim>\<open>if email_id and ...\<close>.\<close>

fun truthy :: "cell \<Rightarrow> bool" where
  "truthy NaN = False"
| "truthy (Str s) = (s \<noteq> [])"
| "truthy (Num s) = (s \<notin> set [''0'', ''0.0'', ''-0.0''])"

text \<open>
  A Python dict keeps insertion order: \<^verbatim>\<open>d[k] = v\<close> replaces the value of a key in place
  and puts a new key last.
\<close>

type_synonym pydict = "(string \<times> cell) list"

definition dict_get :: "pydict \<Rightarrow> string \<Rightarrow> cell \<Rightarrow> cell" where
  "dict_get d k dflt = (case map_of d k of None \<Rightarrow> dflt | Some v \<Rightarrow> v)"

fun dict_set :: "pydict \<Rightarrow> string \<Rightarrow> cell \<Rightarrow> pydict" where
  "dict_set [] k v = [(k, v)]"
| "dict_set ((k', v') # d) k v =
     (if k' = k then (k, v) # d else (k', v') # dict_set d k v)"

definition keys :: "pydict \<Rightarrow> string list" where
  "keys d = map fst d"

text \<open>
  A row gives a cell for every column name; only its values at the names in \<open>columns\<close>
  belong to the DataFrame. The Python never reads a column without testing
  \<^verbatim>\<open>col in df.columns\<close> or using \<^verbatim>\<open>row.get(col, default)\<close> first, and the model keeps
  those tests.
\<close>

type_synonym row = "string \<Rightarrow> cell"

record dataframe =
  columns :: "string list"
  rows :: "row list"

definition empty_frame :: dataframe where
  "empty_frame = \<lparr>columns = [], rows = []\<rparr>"

definition df_empty :: "dataframe \<Rightarrow> bool" where
  "df_empty df = (columns df = [] \<or> rows df = [])"

definition row_get :: "dataframe \<Rightarrow> row \<Rightarrow> string \<Rightarrow> cell \<Rightarrow> cell" where
  "row_get df r k dflt = (if k \<in> set (columns df) then r k else dflt)"

text \<open>\<^verbatim>\<open>df[col] = v\<close>: every row gets \<open>v\<close>; a new column goes last.\<close>

definition set_col :: "dataframe \<Rightarrow> string \<Rightarrow> cell \<Rightarrow> dataframe" where
  "set_col df c v =
     \<lparr>columns = (if c \<in> set (columns df) then columns df else columns df @ [c]),
      rows = map (\<lambda>r. r(c := v)) (rows df)\<rparr>"

text \<open>
  \<^verbatim>\<open>df.loc[i, col] = v\<close>: one cell; a column that does not exist yet is created, missing
  in every other row.
\<close>

definition loc_set :: "dataframe \<Rightarrow> nat \<Rightarrow> string \<Rightarrow> cell \<Rightarrow> dataframe" where
  "loc_set df i c v =
     (let df' = (if c \<in> set (columns df) then df
                 else \<lparr>columns = columns df @ [c], rows = map (\<lambda>r. r(c := NaN)) (rows df)\<rparr>)
      in \<lparr>columns = columns df', rows = (rows df')[i := ((rows df') ! i)(c := v)]\<rparr>)"

text \<open>The tracker file: absent, present but not readable as a workbook, or a sheet.\<close>

datatype tracker_file = Missing | Corrupt | Sheet dataframe

fun path_exists :: "tracker_file \<Rightarrow> bool" where
  "path_exists Missing = False"
| "path_exists Corrupt = True"
| "path_exists (Sheet df) = True"

text \<open>\<^verbatim>\<open>pd.read_excel\<close>; \<open>None\<close> is the exception it raises.\<close>

fun read_excel :: "tracker_file \<Rightarrow> dataframe option" where
  "read_excel Missing = None"
| "read_excel Corrupt = None"
| "read_excel (Sheet df) = Some df"

subsection \<open>Normalised identity fields\<close>

definition sentinels :: "string list" where
  "sentinels = [''not found'', '''', ''nan'', ''none'']"

definition norm_text :: "cell \<Rightarrow> string" where
  "norm_text v = lower (strip (astype_str v))"

text \<open>
  Lines 46-48: \<^verbatim>\<open>str(x).strip().lower() if x and str(x).strip().lower() not in
  ['not found', ''] else None\<close>.
\<close>

definition norm_field :: "cell \<Rightarrow> string option" where
  "norm_field v =
     (if truthy v \<and> norm_text v \<notin> set [''not found'', ''''] then Some (norm_text v) else None)"

text \<open>Lines 48-51: the contact number, with separators removed when it is there.\<close>

definition norm_contact :: "cell \<Rightarrow> string option" where
  "norm_contact v =
     (case norm_field v of None \<Rightarrow> None | Some s \<Rightarrow> Some (re_sub_separators s))"

text \<open>Truth value of a normalised field (\<^verbatim>\<open>None\<close> and the empty text are false).\<close>

fun present :: "string option \<Rightarrow> bool" where
  "present None = False"
| "present (Some s) = (s \<noteq> [])"

text \<open>Line 43.\<close>

definition vendor_norm :: "string \<Rightarrow> string" where
  "vendor_norm vendor_name = (if vendor_name \<noteq> [] then lower (strip vendor_name) else [])"

text \<open>Lines 66, 107, 143: the vendor of a stored row.\<close>

definition existing_vendor :: "row \<Rightarrow> string" where
  "existing_vendor r =
     (if notna (r ''Vendor_Name'') then lower (strip (astype_str (r ''Vendor_Name''))) else [])"

text \<open>Lines 67, 108, 144: the test inside the loop over the matching rows.\<close>

definition same_vendor :: "string \<Rightarrow> row \<Rightarrow> bool" where
  "same_vendor vn r = (vn \<noteq> [] \<and> existing_vendor r \<noteq> [] \<and> vn = existing_vendor r)"

text \<open>Lines 86-90: the normalised name and contact columns and the mask of valid rows.\<close>

definition df_name_norm :: "row \<Rightarrow> string" where
  "df_name_norm r = norm_text (r ''Candidate_Name'')"

definition df_contact_norm :: "row \<Rightarrow> string" where
  "df_contact_norm r =
     (let x = norm_text (r ''Contact_Number'')
      in if x \<notin> set sentinels then re_sub_separators x else x)"

definition valid_name_contact :: "row \<Rightarrow> bool" where
  "valid_name_contact r =
     (df_name_norm r \<notin> set sentinels \<and> df_contact_norm r \<notin> set sentinels)"

definition valid_name :: "row \<Rightarrow> bool" where
  "valid_name r = (df_name_norm r \<notin> set sentinels)"

subsection \<open>The match sets of the three tiers\<close>

text \<open>
  Lines 54-59: \<^verbatim>\<open>valid_emails\<close> and \<^verbatim>\<open>matching_rows\<close> of the email tier. The result is
  empty when the tier is skipped or finds nothing.
\<close>

definition email_matches :: "dataframe \<Rightarrow> string option \<Rightarrow> row list" where
  "email_matches df email_id_norm =
     (case email_id_norm of
        None \<Rightarrow> []
      | Some e \<Rightarrow>
          if e \<noteq> [] \<and> ''Email_ID'' \<in> set (columns df) then
            (let existing_emails = map (\<lambda>r. norm_text (r ''Email_ID'')) (rows df);
                 valid_emails = filter (\<lambda>x. x \<notin> set sentinels) existing_emails
             in if valid_emails \<noteq> [] \<and> e \<in> set valid_emails
                then filter (\<lambda>r. norm_text (r ''Email_ID'') = e) (rows df)
                else [])
          else [])"

text \<open>Lines 85-99: \<^verbatim>\<open>matching_rows\<close> of the name and phone tier.\<close>

definition name_phone_matches ::
  "dataframe \<Rightarrow> string option \<Rightarrow> string option \<Rightarrow> row list" where
  "name_phone_matches df candidate_name_norm contact_number_norm =
     (case (candidate_name_norm, contact_number_norm) of
        (Some n, Some p) \<Rightarrow>
          if n \<noteq> [] \<and> p \<noteq> [] \<and> ''Candidate_Name'' \<in> set (columns df)
             \<and> ''Contact_Number'' \<in> set (columns df) then
            (if list_ex valid_name_contact (rows df)
             then filter (\<lambda>r. valid_name_contact r \<and> df_name_norm r = n \<and> df_contact_norm r = p)
                    (rows df)
             else [])
          else []
      | _ \<Rightarrow> [])"

text \<open>Lines 128-137: \<^verbatim>\<open>matching_rows\<close> of the name and vendor fallback.\<close>

definition name_vendor_matches ::
  "dataframe \<Rightarrow> string option \<Rightarrow> string option \<Rightarrow> string \<Rightarrow> row list" where
  "name_vendor_matches df candidate_name_norm contact_number_norm vendor_name_norm =
     (case candidate_name_norm of
        None \<Rightarrow> []
      | Some n \<Rightarrow>
          if n \<noteq> [] \<and> \<not> present contact_number_norm \<and> vendor_name_norm \<noteq> []
             \<and> ''Candidate_Name'' \<in> set (columns df) \<and> ''Vendor_Name'' \<in> set (columns df) then
            (if list_ex valid_name (rows df)
             then filter (\<lambda>r. valid_name r \<and> df_name_norm r = n) (rows df)
             else [])
          else [])"

subsection \<open>check_candidate_status_in_tracker\<close>

text \<open>
  The result \<^verbatim>\<open>(exists, current_status, duplicate_reason, profile_remark)\<close>;
  \<open>current_status = None\<close> is Python's \<^verbatim>\<open>None\<close>.
\<close>

type_synonym check_result = "bool \<times> cell option \<times> string \<times> cell"

definition not_in_tracker :: check_result where
  "not_in_tracker = (False, None, [], Str [])"

text \<open>
  Lines 60-82 and 101-123, the same code for the first two tiers: the first matching row
  of the same vendor blocks; without one, the first matching row is reported as a
  different vendor's. \<open>key\<close> is \<^verbatim>\<open>email\<close> or \<^verbatim>\<open>name_and_phone\<close>.
\<close>

definition classify :: "dataframe \<Rightarrow> string \<Rightarrow> string \<Rightarrow> row \<Rightarrow> row list \<Rightarrow> check_result" where
  "classify df vendor_name_norm key first_row matching_rows =
     (case (if ''Vendor_Name'' \<in> set (columns df)
            then find (same_vendor vendor_name_norm) matching_rows else None) of
        Some same_vendor_row \<Rightarrow>
          (True, Some (row_get df same_vendor_row ''Resume_Screening_Status'' (Str ''Unknown'')),
           key @ ''_same_vendor'', row_get df same_vendor_row ''Profile_Remark'' (Str []))
      | None \<Rightarrow>
          (True, Some (row_get df first_row ''Resume_Screening_Status'' (Str ''Unknown'')),
           key @ ''_different_vendor'', row_get df first_row ''Profile_Remark'' (Str [])))"

definition check_frame :: "pydict \<Rightarrow> string \<Rightarrow> dataframe \<Rightarrow> check_result" where
  "check_frame candidate_details vendor_name df =
     (let email_id_norm = norm_field (dict_get candidate_details ''Email_ID'' (Str []));
          candidate_name_norm = norm_field (dict_get candidate_details ''Candidate_Name'' (Str []));
          contact_number_norm = norm_contact (dict_get candidate_details ''Contact_Number'' (Str []));
          vendor_name_norm = vendor_norm vendor_name
      in case email_matches df email_id_norm of
           r # rs \<Rightarrow> classify df vendor_name_norm ''email'' r (r # rs)
         | [] \<Rightarrow>
      (case name_phone_matches df candidate_name_norm contact_number_norm of
           r # rs \<Rightarrow> classify df vendor_name_norm ''name_and_phone'' r (r # rs)
         | [] \<Rightarrow>
      (case find (same_vendor vendor_name_norm)
              (name_vendor_matches df candidate_name_norm contact_number_norm vendor_name_norm) of
           Some same_vendor_row \<Rightarrow>
             (True, Some (row_get df same_vendor_row ''Resume_Screening_Status'' (Str ''Unknown'')),
              ''name_and_vendor_same_vendor'',
              row_get df same_vendor_row ''Profile_Remark'' (Str []))
         | None \<Rightarrow> not_in_tracker)))"

definition check_candidate_status_in_tracker ::
  "pydict \<Rightarrow> string \<Rightarrow> tracker_file \<Rightarrow> check_result" where
  "check_candidate_status_in_tracker candidate_details vendor_name file =
     (if \<not> path_exists file then not_in_tracker
      else case read_excel file of
             None \<Rightarrow> not_in_tracker
           | Some df \<Rightarrow>
               if df_empty df then not_in_tracker
               else check_frame candidate_details vendor_name df)"

subsection \<open>update_tracker_excel: the admin override (lines 228-277)\<close>

fun first_index :: "('a \<Rightarrow> bool) \<Rightarrow> 'a list \<Rightarrow> nat option" where
  "first_index P [] = None"
| "first_index P (x # xs) = (if P x then Some 0 else map_option Suc (first_index P xs))"

text \<open>
  Lines 245-260: \<^verbatim>\<open>matching_idx\<close>, the index of the first row with the candidate's email,
  or (\<^verbatim>\<open>elif\<close>: only when the email tier is not entered) of the first valid row with the
  candidate's name and phone.
\<close>

definition override_index :: "pydict \<Rightarrow> dataframe \<Rightarrow> nat option" where
  "override_index candidate_details df =
     (let email_id_norm = norm_field (dict_get candidate_details ''Email_ID'' (Str []));
          candidate_name_norm = norm_field (dict_get candidate_details ''Candidate_Name'' (Str []));
          contact_number_norm = norm_contact (dict_get candidate_details ''Contact_Number'' (Str []))
      in if present email_id_norm \<and> ''Email_ID'' \<in> set (columns df) then
           first_index (\<lambda>r. Some (norm_text (r ''Email_ID'')) = email_id_norm) (rows df)
         else if present candidate_name_norm \<and> present contact_number_norm
                 \<and> ''Candidate_Name'' \<in> set (columns df)
                 \<and> ''Contact_Number'' \<in> set (columns df) then
           (if list_ex valid_name_contact (rows df) then
              first_index (\<lambda>r. valid_name_contact r \<and> Some (df_name_norm r) = candidate_name_norm
                                \<and> Some (df_contact_norm r) = contact_number_norm) (rows df)
            else None)
         else None)"

text \<open>Lines 262-272: the cells of the matching row that the override writes.\<close>

definition override_row ::
  "string \<Rightarrow> dataframe \<Rightarrow> nat \<Rightarrow> string \<Rightarrow> string \<Rightarrow> string \<Rightarrow> cell \<Rightarrow> cell \<Rightarrow> string
     \<Rightarrow> dataframe" where
  "override_row today df matching_idx desired_status tracker_type feedback similarity_score
       average_score cv_path =
     (let df1 = loc_set df matching_idx ''Resume_Screening_Status'' (Str desired_status);
          df2 = loc_set df1 matching_idx ''Screening_Date'' (Str today);
          df3 = loc_set df2 matching_idx ''Resume_Screening_Feedback'' (Str feedback);
          df4 = loc_set df3 matching_idx ''Similarity_Score'' similarity_score;
          df5 = loc_set df4 matching_idx ''Average_Score'' average_score
      in if lower tracker_type = ''shortlisted'' \<and> cv_path \<noteq> [] then
           loc_set df5 matching_idx ''Shortlisted_CV_Path'' (Str cv_path)
         else if lower tracker_type = ''rejected'' then
           loc_set df5 matching_idx ''Shortlisted_CV_Path'' (Str [])
         else df5)"

text \<open>
  The \<^verbatim>\<open>try\<close> block of lines 230-277: \<open>Some\<close> the DataFrame it saves; \<open>None\<close> when the file
  cannot be read or no row is found, where the Python falls through to the append.
\<close>

definition admin_override ::
  "string \<Rightarrow> pydict \<Rightarrow> string \<Rightarrow> string \<Rightarrow> string \<Rightarrow> cell \<Rightarrow> cell \<Rightarrow> string \<Rightarrow> tracker_file
     \<Rightarrow> dataframe option" where
  "admin_override today candidate_details desired_status tracker_type feedback similarity_score
       average_score cv_path file =
     (case read_excel file of
        None \<Rightarrow> None
      | Some df \<Rightarrow>
          (case override_index candidate_details df of
             None \<Rightarrow> None
           | Some matching_idx \<Rightarrow>
               Some (override_row today df matching_idx desired_status tracker_type feedback
                       similarity_score average_score cv_path)))"

subsection \<open>update_tracker_excel: loading the tracker for an append (lines 285-320)\<close>

definition first_columns :: "string list" where
  "first_columns = [''Vendor_Name'', ''Profile_Shared_Date'', ''Profile_Remark'']"

definition manual_columns :: "string list" where
  "manual_columns =
     [''R1_Schedule_Date'', ''R1_Panel_Name'', ''R1_Feedback'', ''R1_Status'',
      ''R2_Schedule_Date'', ''R2_Panel_Name'', ''R2_Feedback'', ''R2_Status'',
      ''CV_Conversion_Status'', ''CV_Converted_Path'']"

text \<open>Lines 289-292: the old column name.\<close>

definition rename_date_shortlisted :: "dataframe \<Rightarrow> dataframe" where
  "rename_date_shortlisted df =
     (if ''Date_Shortlisted'' \<in> set (columns df) then
        (let df1 = (if ''Screening_Date'' \<notin> set (columns df)
                    then \<lparr>columns = columns df @ [''Screening_Date''],
                          rows = map (\<lambda>r. r(''Screening_Date'' := r ''Date_Shortlisted'')) (rows df)\<rparr>
                    else df)
         in \<lparr>columns = filter (\<lambda>c. c \<noteq> ''Date_Shortlisted'') (columns df1), rows = rows df1\<rparr>)
      else df)"

text \<open>Lines 293-297: rows remarked as duplicates get the duplicate status.\<close>

definition mark_duplicate_status :: "dataframe \<Rightarrow> dataframe" where
  "mark_duplicate_status df =
     (if ''Profile_Remark'' \<in> set (columns df) \<and> ''Resume_Screening_Status'' \<in> set (columns df) then
        \<lparr>columns = columns df,
         rows = map (\<lambda>r. if norm_text (r ''Profile_Remark'') = ''duplicate profile''
                          then r(''Resume_Screening_Status'' := Str ''Duplicate Profile'') else r)
                  (rows df)\<rparr>
      else df)"

text \<open>Lines 314-316.\<close>

definition add_manual_columns :: "dataframe \<Rightarrow> dataframe" where
  "add_manual_columns df =
     fold (\<lambda>col d. if col \<notin> set (columns d) then set_col d col (Str []) else d) manual_columns df"

definition load_for_append :: "tracker_file \<Rightarrow> dataframe" where
  "load_for_append file =
     (if path_exists file then
        (case read_excel file of
           Some df \<Rightarrow> add_manual_columns (mark_duplicate_status (rename_date_shortlisted df))
         | None \<Rightarrow> empty_frame)
      else empty_frame)"

subsection \<open>update_tracker_excel: the second duplicate check (lines 323-401)\<close>

text \<open>
  The check either returns from the function (\<open>Blocked\<close>, with the reason, the row's
  remark and its status) or leaves \<^verbatim>\<open>profile_remark\<close> set.
\<close>

datatype inline_result = Blocked string cell cell | Remark string

text \<open>
  Lines 343-354 and 368-379: a matching row of the same vendor blocks; otherwise the first
  matching row decides between the two remarks.
\<close>

definition inline_classify ::
  "dataframe \<Rightarrow> string \<Rightarrow> string \<Rightarrow> row \<Rightarrow> row list \<Rightarrow> inline_result" where
  "inline_classify df vendor_name_norm reason first_row matching_rows =
     (if ''Vendor_Name'' \<in> set (columns df) then
        (case find (same_vendor vendor_name_norm) matching_rows of
           Some r \<Rightarrow>
             Blocked reason (row_get df r ''Profile_Remark'' (Str []))
               (row_get df r ''Resume_Screening_Status'' (Str ''Unknown''))
         | None \<Rightarrow>
             if vendor_name_norm \<noteq> [] \<and> existing_vendor first_row \<noteq> []
                \<and> vendor_name_norm \<noteq> existing_vendor first_row
             then Remark ''Duplicate Profile'' else Remark ''Unique Profile'')
      else Remark ''Unique Profile'')"

definition inline_check :: "pydict \<Rightarrow> string \<Rightarrow> dataframe \<Rightarrow> inline_result" where
  "inline_check candidate_details vendor_name df =
     (let vendor_name_norm = vendor_norm vendor_name
      in if df_empty df then Remark ''Unique Profile''
         else
          (let email_id_norm = norm_field (dict_get candidate_details ''Email_ID'' (Str []));
               candidate_name_norm =
                 norm_field (dict_get candidate_details ''Candidate_Name'' (Str []));
               contact_number_norm =
                 norm_contact (dict_get candidate_details ''Contact_Number'' (Str []));
               by_email =
                 (case email_matches df email_id_norm of
                    [] \<Rightarrow> Remark ''Unique Profile''
                  | r # rs \<Rightarrow> inline_classify df vendor_name_norm ''email_same_vendor'' r (r # rs))
           in if by_email \<noteq> Remark ''Unique Profile'' then by_email
              else
               (let by_phone =
                      (case name_phone_matches df candidate_name_norm contact_number_norm of
                         [] \<Rightarrow> Remark ''Unique Profile''
                       | r # rs \<Rightarrow>
                           inline_classify df vendor_name_norm ''name_and_phone_same_vendor'' r
                             (r # rs))
                in if by_phone \<noteq> Remark ''Unique Profile'' then by_phone
                   else
                    (case find (same_vendor vendor_name_norm)
                            (name_vendor_matches df candidate_name_norm contact_number_norm
                               vendor_name_norm) of
                       Some r \<Rightarrow>
                         Blocked ''name_and_vendor_same_vendor''
                           (row_get df r ''Profile_Remark'' (Str []))
                           (row_get df r ''Resume_Screening_Status'' (Str ''Unknown''))
                     | None \<Rightarrow> Remark ''Unique Profile''))))"

subsection \<open>update_tracker_excel: the new row (lines 403-461)\<close>

text \<open>
  \<^verbatim>\<open>profile_shared_date\<close>: nothing, text, or a date object (carried as what
  \<^verbatim>\<open>strftime('%Y-%m-%d')\<close> gives for it).
\<close>

datatype shared_date = NoDate | DateText string | DateObject string

fun shared_date_text :: "shared_date \<Rightarrow> string" where
  "shared_date_text NoDate = []"
| "shared_date_text (DateText s) = s"
| "shared_date_text (DateObject s) = s"

definition fill_details ::
  "string \<Rightarrow> pydict \<Rightarrow> string \<Rightarrow> string \<Rightarrow> cell \<Rightarrow> cell \<Rightarrow> string \<Rightarrow> string \<Rightarrow> shared_date
     \<Rightarrow> string \<Rightarrow> string \<Rightarrow> pydict" where
  "fill_details today candidate_details tracker_type feedback similarity_score average_score
       cv_path vendor_name profile_shared_date profile_remark desired_status =
     (let d1 = dict_set candidate_details ''Vendor_Name'' (Str vendor_name);
          d2 = dict_set d1 ''Profile_Shared_Date'' (Str (shared_date_text profile_shared_date));
          d3 = dict_set d2 ''Profile_Remark'' (Str profile_remark);
          d4 = dict_set d3 ''Resume_Screening_Feedback'' (Str feedback);
          d5 = dict_set d4 ''Similarity_Score'' similarity_score;
          d6 = dict_set d5 ''Average_Score'' average_score;
          d7 = dict_set d6 ''Shortlisted_CV_Path''
                 (Str (if lower tracker_type = ''shortlisted'' \<and> cv_path \<noteq> [] then cv_path else []));
          d8 = dict_set d7 ''Resume_Screening_Status''
                 (Str (if profile_remark = ''Duplicate Profile'' then ''Duplicate Profile''
                       else desired_status));
          d9 = dict_set d8 ''Screening_Date'' (Str today);
          d10 = (if ''Position'' \<notin> set (keys d9) then dict_set d9 ''Position'' (Str ''Not Found'')
                 else d9)
      in fold (\<lambda>col d. dict_set d col (Str [])) manual_columns d10)"

subsection \<open>update_tracker_excel: appending the row (lines 463-521)\<close>

text \<open>
  \<^verbatim>\<open>pd.concat([df, new_row], ignore_index=True)\<close> for a one-row \<^verbatim>\<open>new_row\<close> with the
  columns \<open>new_cols\<close>: the columns of \<open>df\<close>, then the new ones; a cell that one side does
  not have is missing.
\<close>

definition concat_row :: "dataframe \<Rightarrow> string list \<Rightarrow> row \<Rightarrow> dataframe" where
  "concat_row df new_cols new_row =
     \<lparr>columns = columns df @ filter (\<lambda>c. c \<notin> set (columns df)) new_cols,
      rows = map (\<lambda>r c. if c \<in> set (columns df) then r c else NaN) (rows df)
             @ [\<lambda>c. if c \<in> set new_cols then new_row c else NaN]\<rparr>"

definition append_row :: "dataframe \<Rightarrow> pydict \<Rightarrow> dataframe" where
  "append_row df candidate_details =
     (let new_row = (\<lambda>col. dict_get candidate_details col (Str []))
      in if \<not> df_empty df then
           (let existing_cols = fold remove1 first_columns (columns df);
                new_cols = filter (\<lambda>col. col \<notin> set existing_cols \<and> col \<notin> set first_columns)
                             (keys candidate_details);
                df1 = fold (\<lambda>col d. set_col d col (Str [])) new_cols df;
                existing_cols' = existing_cols @ new_cols;
                df2 = fold (\<lambda>col d. if col \<notin> set (columns d) then set_col d col (Str []) else d)
                        first_columns df1;
                final_cols = first_columns @ filter (\<lambda>col. col \<notin> set first_columns) existing_cols'
            in concat_row \<lparr>columns = final_cols, rows = rows df2\<rparr> final_cols new_row)
         else
           (let all_cols = first_columns
                             @ filter (\<lambda>col. col \<notin> set first_columns) (keys candidate_details)
            in concat_row df all_cols new_row))"

subsection \<open>update_tracker_excel: the order of the columns (lines 523-560)\<close>

text \<open>\<^verbatim>\<open>list.insert(i, x)\<close> and \<^verbatim>\<open>list.index(x)\<close> (used only for an \<open>x\<close> in the list).\<close>

definition list_insert :: "nat \<Rightarrow> 'a \<Rightarrow> 'a list \<Rightarrow> 'a list" where
  "list_insert i x xs = take i xs @ [x] @ drop i xs"

definition list_index :: "'a \<Rightarrow> 'a list \<Rightarrow> nat" where
  "list_index x xs = length (takeWhile (\<lambda>y. y \<noteq> x) xs)"

text \<open>Lines 524-528.\<close>

definition move_first_columns :: "string list \<Rightarrow> string list" where
  "move_first_columns cols =
     fold (\<lambda>(i, col) cs. if col \<in> set cs then list_insert i col (remove1 col cs) else cs)
       (enumerate 0 first_columns) cols"

text \<open>Lines 531-536; \<^verbatim>\<open>email_idx\<close> is taken before \<^verbatim>\<open>Position\<close> is removed.\<close>

definition position_after_email :: "string list \<Rightarrow> string list" where
  "position_after_email cols =
     (if ''Email_ID'' \<in> set cols \<and> ''Position'' \<in> set cols then
        (let email_idx = list_index ''Email_ID'' cols;
             pos_idx = list_index ''Position'' cols
         in if pos_idx \<noteq> email_idx + 1
            then list_insert (email_idx + 1) ''Position'' (remove1 ''Position'' cols)
            else cols)
      else cols)"

text \<open>Lines 553-557.\<close>

definition manual_columns_last :: "string list \<Rightarrow> string list" where
  "manual_columns_last cols = fold remove1 manual_columns cols @ manual_columns"

definition order_columns :: "string list \<Rightarrow> string list" where
  "order_columns cols = manual_columns_last (position_after_email (move_first_columns cols))"

subsection \<open>update_tracker_excel\<close>

text \<open>
  The result \<^verbatim>\<open>(added, duplicate_reason, profile_remark, current_status)\<close> with the file as
  the call leaves it; \<^verbatim>\<open>excel_path\<close>, the first component of the Python's tuple, is the
  fixed path of the file and is left out.
\<close>

type_synonym update_result = "bool \<times> string \<times> cell \<times> cell option"

text \<open>Lines 279-565: everything after the first-come-first-serve block.\<close>

definition add_entry ::
  "string \<Rightarrow> bool \<Rightarrow> pydict \<Rightarrow> string \<Rightarrow> string \<Rightarrow> cell \<Rightarrow> cell \<Rightarrow> string \<Rightarrow> string
     \<Rightarrow> shared_date \<Rightarrow> string \<Rightarrow> tracker_file \<Rightarrow> tracker_file \<times> update_result" where
  "add_entry today is_different_vendor_duplicate candidate_details tracker_type feedback
       similarity_score average_score cv_path vendor_name profile_shared_date desired_status file =
     (let df = load_for_append file;
          checked = (if is_different_vendor_duplicate then Remark ''Duplicate Profile''
                     else inline_check candidate_details vendor_name df)
      in case checked of
           Blocked reason remark status \<Rightarrow> (file, (False, reason, remark, Some status))
         | Remark profile_remark \<Rightarrow>
             (let details = fill_details today candidate_details tracker_type feedback
                              similarity_score average_score cv_path vendor_name
                              profile_shared_date profile_remark desired_status;
                  df' = append_row df details
              in (Sheet \<lparr>columns = order_columns (columns df'), rows = rows df'\<rparr>,
                  (True, [], Str profile_remark, None))))"

definition update_tracker_excel ::
  "string \<Rightarrow> pydict \<Rightarrow> string \<Rightarrow> string \<Rightarrow> cell \<Rightarrow> cell \<Rightarrow> string \<Rightarrow> string \<Rightarrow> shared_date
     \<Rightarrow> bool \<Rightarrow> tracker_file \<Rightarrow> tracker_file \<times> update_result" where
  "update_tracker_excel today candidate_details tracker_type feedback similarity_score
       average_score cv_path vendor_name profile_shared_date allow_status_change file =
     (let desired_status = (if lower tracker_type = ''shortlisted'' then ''Shortlisted''
                            else ''Rejected'')
      in case check_candidate_status_in_tracker candidate_details vendor_name file of
           (exists, current_status, duplicate_reason, existing_profile_remark) \<Rightarrow>
             if exists \<and> endswith duplicate_reason ''_same_vendor'' then
               (file, (False, duplicate_reason, existing_profile_remark, current_status))
             else if exists \<and> endswith duplicate_reason ''_different_vendor'' then
               add_entry today True candidate_details tracker_type feedback similarity_score
                 average_score cv_path vendor_name profile_shared_date desired_status file
             else if exists \<and> \<not> allow_status_change then
               (file, (False, ''already_exists'', existing_profile_remark, current_status))
             else if exists then
               (case admin_override today candidate_details desired_status tracker_type feedback
                       similarity_score average_score cv_path file of
                  Some df \<Rightarrow>
                    (Sheet df,
                     (True, ''status_updated'', existing_profile_remark, Some (Str desired_status)))
                | None \<Rightarrow>
                    add_entry today False candidate_details tracker_type feedback similarity_score
                      average_score cv_path vendor_name profile_shared_date desired_status file)
             else
               add_entry today False candidate_details tracker_type feedback similarity_score
                 average_score cv_path vendor_name profile_shared_date desired_status file)"

subsection \<open>update_cv_conversion_status (lines 568-642)\<close>







subsection \<open>Definitions used in the statements and proofs\<close>

text \<open>
  What loading for an append (lines 285-320) makes of a stored row: the old date column
  copied, the duplicate status set, the manual columns that were not there yet filled with
  empty text.
\<close>

definition loaded_row :: "dataframe \<Rightarrow> row \<Rightarrow> row" where
  "loaded_row df r =
     (let r1 = (if ''Date_Shortlisted'' \<in> set (columns df) \<and> ''Screening_Date'' \<notin> set (columns df)
                then r(''Screening_Date'' := r ''Date_Shortlisted'') else r);
          df1 = rename_date_shortlisted df;
          r2 = (if ''Profile_Remark'' \<in> set (columns df1)
                   \<and> ''Resume_Screening_Status'' \<in> set (columns df1)
                   \<and> norm_text (r1 ''Profile_Remark'') = ''duplicate profile''
                then r1(''Resume_Screening_Status'' := Str ''Duplicate Profile'') else r1)
      in (\<lambda>c. if c \<in> set manual_columns \<and> c \<notin> set (columns df1) then Str [] else r2 c))"

text \<open>Concrete trackers and candidates for the examples.\<close>

definition row_of :: "pydict \<Rightarrow> row" where
  "row_of d = (\<lambda>c. dict_get d c NaN)"

definition jane :: pydict where
  "jane = [(''Candidate_Name'', Str ''Jane''), (''Email_ID'', Str ''a@x'')]"

definition acme_sheet :: dataframe where
  "acme_sheet =
     \<lparr>columns = [''Vendor_Name'', ''Email_ID'', ''Resume_Screening_Status'', ''Profile_Remark''],
      rows = [row_of [(''Vendor_Name'', Str ''Acme''), (''Email_ID'', Str ''a@x''),
                      (''Resume_Screening_Status'', Str ''Shortlisted''),
                      (''Profile_Remark'', Str ''Unique Profile'')]]\<rparr>"

definition position_first :: pydict where
  "position_first = [(''Position'', Str ''Dev''), (''Email_ID'', Str ''a@x''),
                     (''Candidate_Name'', Str ''Jane'')]"



definition stored_vendor :: "dataframe \<Rightarrow> row \<Rightarrow> string" where
  "stored_vendor df r =
     (let v = row_get df r ''Vendor_Name'' NaN
      in if notna v then lower (strip (astype_str v)) else [])"




text \<open>
  Section 4.4 for a match set \<open>r0 # \<dots>\<close> of tier 1 or 2: a matched row of the submitting
  vendor makes it a same-vendor duplicate with that row's status; otherwise it is a
  different-vendor duplicate with the first matched row's status.
\<close>

definition spec_duplicate ::
  "dataframe \<Rightarrow> string \<Rightarrow> string \<Rightarrow> row \<Rightarrow> row list \<Rightarrow> check_result" where
  "spec_duplicate df vendor_name key r0 ms =
     (case find (\<lambda>r. vendor_norm vendor_name \<noteq> [] \<and> stored_vendor df r = vendor_norm vendor_name)
             ms of
        Some r \<Rightarrow>
          (True, Some (row_get df r ''Resume_Screening_Status'' (Str ''Unknown'')),
           key @ ''_same_vendor'', row_get df r ''Profile_Remark'' (Str []))
      | None \<Rightarrow>
          (True, Some (row_get df r0 ''Resume_Screening_Status'' (Str ''Unknown'')),
           key @ ''_different_vendor'', row_get df r0 ''Profile_Remark'' (Str [])))"




text \<open>
  The match set of the resolver as the code computes it: \<^verbatim>\<open>matching_rows\<close> of the first
  tier that has any.
\<close>

definition resolver_matches :: "pydict \<Rightarrow> string \<Rightarrow> dataframe \<Rightarrow> row list" where
  "resolver_matches candidate_details vendor_name df =
     (let email_id_norm = norm_field (dict_get candidate_details ''Email_ID'' (Str []));
          candidate_name_norm = norm_field (dict_get candidate_details ''Candidate_Name'' (Str []));
          contact_number_norm = norm_contact (dict_get candidate_details ''Contact_Number'' (Str []))
      in case email_matches df email_id_norm of
           r # rs \<Rightarrow> r # rs
         | [] \<Rightarrow>
             (case name_phone_matches df candidate_name_norm contact_number_norm of
                r # rs \<Rightarrow> r # rs
              | [] \<Rightarrow> name_vendor_matches df candidate_name_norm contact_number_norm
                        (vendor_norm vendor_name)))"

text \<open>A stored row is of the submitting vendor: the vendor is not empty and equals the row's.\<close>

definition of_vendor :: "dataframe \<Rightarrow> string \<Rightarrow> row \<Rightarrow> bool" where
  "of_vendor df vendor_name r =
     (vendor_norm vendor_name \<noteq> [] \<and> stored_vendor df r = vendor_norm vendor_name)"

definition mixed_sheet :: dataframe where
  "mixed_sheet =
     \<lparr>columns = [''Vendor_Name'', ''Email_ID'', ''Resume_Screening_Status'', ''Profile_Remark''],
      rows = [row_of [(''Vendor_Name'', Str ''Beta''), (''Email_ID'', Str ''a@x''),
                      (''Resume_Screening_Status'', Str ''Rejected''),
                      (''Profile_Remark'', Str ''Unique Profile'')],
              row_of [(''Vendor_Name'', Str ''Acme''), (''Email_ID'', Str ''a@x''),
                      (''Resume_Screening_Status'', Str ''Duplicate Profile''),
                      (''Profile_Remark'', Str ''Duplicate Profile'')]]\<rparr>"

text \<open>The candidate is matched by the email tier or by the name and phone tier.\<close>

definition matched_by_email_or_phone :: "pydict \<Rightarrow> tracker_file \<Rightarrow> bool" where
  "matched_by_email_or_phone candidate_details file =
     (case read_excel file of
        None \<Rightarrow> False
      | Some df \<Rightarrow>
          email_matches df (norm_field (dict_get candidate_details ''Email_ID'' (Str []))) \<noteq> []
          \<or> name_phone_matches df
               (norm_field (dict_get candidate_details ''Candidate_Name'' (Str [])))
               (norm_contact (dict_get candidate_details ''Contact_Number'' (Str []))) \<noteq> [])"

definition house_sheet :: dataframe where
  "house_sheet =
     \<lparr>columns = [''Vendor_Name'', ''Email_ID'', ''Resume_Screening_Status'', ''Profile_Remark''],
      rows = [row_of [(''Vendor_Name'', NaN), (''Email_ID'', Str ''a@x''),
                      (''Resume_Screening_Status'', Str ''Shortlisted''),
                      (''Profile_Remark'', Str ''Unique Profile'')]]\<rparr>"


text \<open>
  The table that a tracker file holds; a file that is missing or cannot be read holds no
  rows and no columns.
\<close>

fun stored_frame :: "tracker_file \<Rightarrow> dataframe" where
  "stored_frame Missing = empty_frame"
| "stored_frame Corrupt = empty_frame"
| "stored_frame (Sheet df) = df"

text \<open>
  A stored row that lines 293-297 give the duplicate status: the sheet has both columns and
  the row's remark is \<^verbatim>\<open>duplicate profile\<close> after trimming and lower-casing.
\<close>

definition remarked_duplicate :: "dataframe \<Rightarrow> row \<Rightarrow> bool" where
  "remarked_duplicate df r =
     (''Profile_Remark'' \<in> set (columns df) \<and> ''Resume_Screening_Status'' \<in> set (columns df)
      \<and> norm_text (r ''Profile_Remark'') = ''duplicate profile'')"

definition stale_sheet :: dataframe where
  "stale_sheet =
     \<lparr>columns = [''Vendor_Name'', ''Email_ID'', ''Resume_Screening_Status'', ''Profile_Remark''],
      rows = [row_of [(''Vendor_Name'', Str ''Beta''), (''Email_ID'', Str ''b@y''),
                      (''Resume_Screening_Status'', Str ''Shortlisted''),
                      (''Profile_Remark'', Str ''Duplicate Profile'')]]\<rparr>"







text \<open>
  For the proofs about two calls in a row: a cell without content, and a map on rows (what
  an append makes of the stored rows) that keeps the four identity fields, or leaves them
  without content where the sheet did not have the column.
\<close>

definition blank :: "cell \<Rightarrow> bool" where
  "blank v = (v = Str [] \<or> v = NaN)"




section \<open>Properties\<close>

lemma map_of_dict_set: "map_of (dict_set d k v) = (map_of d)(k \<mapsto> v)"
  by (induction d) (auto simp: fun_eq_iff)

lemma dict_get_dict_set:
  "dict_get (dict_set d k v) k' x = (if k' = k then v else dict_get d k' x)"
  by (simp add: dict_get_def map_of_dict_set)

lemma keys_dom: "set (keys d) = dom (map_of d)"
  by (simp add: keys_def dom_map_of_conv_image_fst)

lemma keys_dict_set: "set (keys (dict_set d k v)) = insert k (set (keys d))"
  by (simp add: keys_dom map_of_dict_set)

lemma dict_get_fold_set:
  "dict_get (fold (\<lambda>col d. dict_set d col v) cs d) k x =
     (if k \<in> set cs then v else dict_get d k x)"
  by (induction cs arbitrary: d) (auto simp: dict_get_dict_set)

lemma keys_fold_set:
  "set (keys (fold (\<lambda>col d. dict_set d col v) cs d)) = set cs \<union> set (keys d)"
  by (induction cs arbitrary: d) (auto simp: keys_dict_set)


lemma dict_get_default: "k \<in> set (keys d) \<Longrightarrow> dict_get d k x = dict_get d k y"
  by (auto simp: dict_get_def keys_dom split: option.splits)

lemma keys_set_mono: "k \<in> set (keys d) \<Longrightarrow> k \<in> set (keys (dict_set d k' v))"
  by (simp add: keys_dict_set)

lemma keys_set_self: "k \<in> set (keys (dict_set d k v))"
  by (simp add: keys_dict_set)

lemma keys_if_mono:
  "k \<in> set (keys d) \<Longrightarrow> k \<in> set (keys (if b then dict_set d k' v else d))"
  by (simp add: keys_dict_set)

lemma keys_fold_mono:
  "k \<in> set (keys d) \<Longrightarrow> k \<in> set (keys (fold (\<lambda>col d. dict_set d col v) cs d))"
  by (simp add: keys_fold_set)

lemma keys_fold_self:
  "k \<in> set cs \<Longrightarrow> k \<in> set (keys (fold (\<lambda>col d. dict_set d col v) cs d))"
  by (simp add: keys_fold_set)
lemma dict_get_if:
  "dict_get (if b then dict_set d k v else d) k' x =
     (if b \<and> k' = k then v else dict_get d k' x)"
  by (simp add: dict_get_dict_set)

lemma fill_details_vendor:
  "dict_get (fill_details today cd tt fb sim avg cv v psd pr ds) ''Vendor_Name'' x = Str v"
  unfolding fill_details_def Let_def dict_get_fold_set dict_get_if dict_get_dict_set
  by (simp add: manual_columns_def)

lemma fill_details_remark:
  "dict_get (fill_details today cd tt fb sim avg cv v psd pr ds) ''Profile_Remark'' x = Str pr"
  unfolding fill_details_def Let_def dict_get_fold_set dict_get_if dict_get_dict_set
  by (simp add: manual_columns_def)

lemma fill_details_status:
  "dict_get (fill_details today cd tt fb sim avg cv v psd pr ds) ''Resume_Screening_Status'' x =
     Str (if pr = ''Duplicate Profile'' then ''Duplicate Profile'' else ds)"
  unfolding fill_details_def Let_def dict_get_fold_set dict_get_if dict_get_dict_set
  by (simp add: manual_columns_def)

lemma fill_details_email:
  "dict_get (fill_details today cd tt fb sim avg cv v psd pr ds) ''Email_ID'' x =
     dict_get cd ''Email_ID'' x"
  unfolding fill_details_def Let_def dict_get_fold_set dict_get_if dict_get_dict_set
  by (simp add: manual_columns_def)

lemma fill_details_name:
  "dict_get (fill_details today cd tt fb sim avg cv v psd pr ds) ''Candidate_Name'' x =
     dict_get cd ''Candidate_Name'' x"
  unfolding fill_details_def Let_def dict_get_fold_set dict_get_if dict_get_dict_set
  by (simp add: manual_columns_def)

lemma fill_details_contact:
  "dict_get (fill_details today cd tt fb sim avg cv v psd pr ds) ''Contact_Number'' x =
     dict_get cd ''Contact_Number'' x"
  unfolding fill_details_def Let_def dict_get_fold_set dict_get_if dict_get_dict_set
  by (simp add: manual_columns_def)

lemma keys_fill_details_mono:
  "k \<in> set (keys cd) \<Longrightarrow> k \<in> set (keys (fill_details today cd tt fb sim avg cv v psd pr ds))"
  unfolding fill_details_def Let_def
  by (intro keys_fold_mono keys_if_mono keys_set_mono)

lemma keys_fill_details_manual:
  "k \<in> set manual_columns \<Longrightarrow>
   k \<in> set (keys (fill_details today cd tt fb sim avg cv v psd pr ds))"
  unfolding fill_details_def Let_def
  by (rule keys_fold_self)

lemma keys_fill_details_vendor:
  "''Vendor_Name'' \<in> set (keys (fill_details today cd tt fb sim avg cv v psd pr ds))"
  unfolding fill_details_def Let_def
  by (intro keys_fold_mono keys_if_mono keys_set_mono keys_set_self)

lemma keys_fill_details_remark:
  "''Profile_Remark'' \<in> set (keys (fill_details today cd tt fb sim avg cv v psd pr ds))"
  unfolding fill_details_def Let_def
  by (intro keys_fold_mono keys_if_mono keys_set_mono keys_set_self)

lemma keys_fill_details_status:
  "''Resume_Screening_Status'' \<in> set (keys (fill_details today cd tt fb sim avg cv v psd pr ds))"
  unfolding fill_details_def Let_def
  by (intro keys_fold_mono keys_if_mono keys_set_mono keys_set_self)
lemma rows_set_col: "rows (set_col df c v) = map (\<lambda>r. r(c := v)) (rows df)"
  by (simp add: set_col_def)

lemma columns_set_col:
  "columns (set_col df c v) = (if c \<in> set (columns df) then columns df else columns df @ [c])"
  by (simp add: set_col_def)

lemma rows_fold_set_col:
  "rows (fold (\<lambda>col d. set_col d col v) cs df) =
     map (\<lambda>r c. if c \<in> set cs then v else r c) (rows df)"
proof (induction cs arbitrary: df)
  case Nil
  then show ?case by simp
next
  case (Cons a cs)
  show ?case
    by (simp add: Cons.IH rows_set_col fun_eq_iff o_def)
qed

lemma columns_fold_set_col:
  "set (columns (fold (\<lambda>col d. set_col d col v) cs df)) = set (columns df) \<union> set cs"
  by (induction cs arbitrary: df) (auto simp: columns_set_col)

lemma rows_fold_add_col:
  "rows (fold (\<lambda>col d. if col \<notin> set (columns d) then set_col d col v else d) cs df) =
     map (\<lambda>r c. if c \<in> set cs \<and> c \<notin> set (columns df) then v else r c) (rows df)"
proof (induction cs arbitrary: df)
  case Nil
  then show ?case by simp
next
  case (Cons a cs)
  show ?case
    by (auto simp: Cons.IH rows_set_col columns_set_col fun_eq_iff o_def)
qed

lemma columns_fold_add_col:
  "set (columns (fold (\<lambda>col d. if col \<notin> set (columns d) then set_col d col v else d) cs df)) =
     set (columns df) \<union> set cs"
  by (induction cs arbitrary: df) (auto simp: columns_set_col)

lemma columns_fold_add_col_nonempty:
  "columns df \<noteq> [] \<Longrightarrow>
   columns (fold (\<lambda>col d. if col \<notin> set (columns d) then set_col d col v else d) cs df) \<noteq> []"
  by (induction cs arbitrary: df) (auto simp: columns_set_col)

lemma columns_mark [simp]: "columns (mark_duplicate_status df) = columns df"
  by (simp add: mark_duplicate_status_def)

lemma rows_load_for_append:
  "rows (load_for_append (Sheet df)) = map (loaded_row df) (rows df)"
  by (auto simp: load_for_append_def add_manual_columns_def rows_fold_add_col loaded_row_def
        mark_duplicate_status_def rename_date_shortlisted_def Let_def fun_eq_iff)

lemma columns_load_for_append:
  "set (columns (load_for_append (Sheet df))) =
     set (columns (rename_date_shortlisted df)) \<union> set manual_columns"
  by (simp add: load_for_append_def add_manual_columns_def columns_fold_add_col)
lemma set_fold_remove1_subset: "set (fold remove1 ys xs) \<subseteq> set xs"
proof (induction ys arbitrary: xs)
  case Nil
  then show ?case by simp
next
  case (Cons y ys)
  have "set (fold remove1 ys (remove1 y xs)) \<subseteq> set (remove1 y xs)" by (rule Cons.IH)
  also have "\<dots> \<subseteq> set xs" by (rule set_remove1_subset)
  finally show ?case by simp
qed

lemma in_set_fold_remove1:
  "x \<in> set xs \<Longrightarrow> x \<notin> set ys \<Longrightarrow> x \<in> set (fold remove1 ys xs)"
  by (induction ys arbitrary: xs) auto

lemma set_fold_remove1_Un: "set (fold remove1 ys xs) \<union> set ys = set xs \<union> set ys"
  using set_fold_remove1_subset[of ys xs] in_set_fold_remove1[of _ xs ys] by blast

lemma append_row_rows:
  "\<exists>g new. rows (append_row df d) = map g (rows df) @ [new]
     \<and> (\<forall>r c. c \<in> set (columns df) \<longrightarrow> g r c = r c)
     \<and> (\<forall>r c. c \<notin> set (columns df) \<longrightarrow> g r c = Str [] \<or> g r c = NaN)
     \<and> (\<forall>c. c \<in> set (keys d) \<longrightarrow> new c = dict_get d c (Str []))
     \<and> (\<forall>c. new c = dict_get d c (Str []) \<or> new c = NaN)"
proof (cases "df_empty df")
  case True
  let ?all = "first_columns @ filter (\<lambda>col. col \<notin> set first_columns) (keys d)"
  let ?g = "\<lambda>r c. if c \<in> set (columns df) then r c else NaN"
  let ?new = "\<lambda>c. if c \<in> set ?all then dict_get d c (Str []) else NaN"
  have "rows (append_row df d) = map ?g (rows df) @ [?new]"
    using True by (simp add: append_row_def concat_row_def Let_def)
  moreover have "\<forall>c. c \<in> set (keys d) \<longrightarrow> ?new c = dict_get d c (Str [])" by auto
  ultimately show ?thesis by (intro exI[of _ ?g] exI[of _ ?new]) simp
next
  case False
  define existing_cols where "existing_cols = fold remove1 first_columns (columns df)"
  define new_cols where
    "new_cols = filter (\<lambda>col. col \<notin> set existing_cols \<and> col \<notin> set first_columns) (keys d)"
  define df1 where "df1 = fold (\<lambda>col d. set_col d col (Str [])) new_cols df"
  define final_cols where
    "final_cols = first_columns @ filter (\<lambda>col. col \<notin> set first_columns) (existing_cols @ new_cols)"
  let ?r1 = "\<lambda>r c. if c \<in> set new_cols then Str [] else r c"
  let ?r2 = "\<lambda>r c. if c \<in> set first_columns \<and> c \<notin> set (columns df1) then Str [] else r c"
  let ?g = "\<lambda>r c. if c \<in> set final_cols then ?r2 (?r1 r) c else NaN"
  let ?new = "\<lambda>c. if c \<in> set final_cols then dict_get d c (Str []) else NaN"
  have rows_eq: "rows (append_row df d) = map ?g (rows df) @ [?new]"
    using False
    unfolding existing_cols_def new_cols_def df1_def final_cols_def
    by (auto simp add: append_row_def concat_row_def Let_def rows_fold_add_col rows_fold_set_col
          o_def fun_eq_iff)
  have cols1: "set (columns df1) = set (columns df) \<union> set new_cols"
    by (simp add: df1_def columns_fold_set_col)
  have ex_sub: "set existing_cols \<subseteq> set (columns df)"
    unfolding existing_cols_def by (rule set_fold_remove1_subset)
  have cover: "set (columns df) \<subseteq> set existing_cols \<union> set first_columns"
    using set_fold_remove1_Un[of first_columns "columns df"] by (auto simp: existing_cols_def)
  have new_disj: "\<And>c. c \<in> set new_cols \<Longrightarrow> c \<notin> set (columns df) \<and> c \<notin> set first_columns"
    using cover by (auto simp: new_cols_def)
  have final_set: "set final_cols = set first_columns \<union> set existing_cols \<union> set new_cols"
    by (auto simp: final_cols_def)
  have old: "\<forall>r c. c \<in> set (columns df) \<longrightarrow> ?g r c = r c"
    using cover new_disj cols1 final_set by auto
  have blank: "\<forall>r c. c \<notin> set (columns df) \<longrightarrow> ?g r c = Str [] \<or> ?g r c = NaN"
    using ex_sub new_disj cols1 final_set by auto
  have new: "\<forall>c. c \<in> set (keys d) \<longrightarrow> ?new c = dict_get d c (Str [])"
    using final_set by (auto simp: new_cols_def)
  show ?thesis
    using rows_eq old blank new by (intro exI[of _ ?g] exI[of _ ?new]) simp
qed

lemma append_row_columns:
  "set (keys d) \<union> set first_columns \<union> set (columns df) \<subseteq> set (columns (append_row df d))"
proof (cases "df_empty df")
  case True
  then show ?thesis by (auto simp: append_row_def concat_row_def Let_def)
next
  case False
  have cover: "set (columns df) \<subseteq> set (fold remove1 first_columns (columns df)) \<union> set first_columns"
    using set_fold_remove1_Un[of first_columns "columns df"] by auto
  show ?thesis
    using False cover by (auto simp: append_row_def concat_row_def Let_def)
qed
lemma set_list_insert: "set (list_insert i x xs) = insert x (set xs)"
proof -
  have "set (take i xs) \<union> set (drop i xs) = set xs"
    by (metis append_take_drop_id set_append)
  then show ?thesis by (auto simp: list_insert_def)
qed

lemma set_reinsert: "x \<in> set xs \<Longrightarrow> set (list_insert i x (remove1 x xs)) = set xs"
proof -
  assume x: "x \<in> set xs"
  have sub: "set (remove1 x xs) \<subseteq> set xs" by (rule set_remove1_subset)
  have keep: "\<forall>y. y \<in> set xs \<and> y \<noteq> x \<longrightarrow> y \<in> set (remove1 x xs)"
    by simp
  have "insert x (set (remove1 x xs)) = set xs"
    using sub keep x by blast
  then show ?thesis by (simp add: set_list_insert)
qed

lemma set_move_first_columns: "set (move_first_columns cols) = set cols"
  by (simp add: move_first_columns_def first_columns_def set_reinsert)

lemma set_position_after_email: "set (position_after_email cols) = set cols"
  by (simp add: position_after_email_def Let_def set_reinsert)

lemma set_manual_columns_last: "set (manual_columns_last cols) = set cols \<union> set manual_columns"
  by (simp add: manual_columns_last_def set_fold_remove1_Un)

lemma set_order_columns: "set (order_columns cols) = set cols \<union> set manual_columns"
  by (simp add: order_columns_def set_manual_columns_last set_position_after_email
        set_move_first_columns)

lemma order_columns_nonempty: "order_columns cols \<noteq> []"
  by (simp add: order_columns_def manual_columns_last_def manual_columns_def)
lemma empty_is_sentinel: "[] \<in> set sentinels"
  by (simp add: sentinels_def)

lemma email_matches_None: "email_matches df None = []"
  by (simp add: email_matches_def)

lemma email_matches_Some:
  "email_matches df (Some e) =
     (if ''Email_ID'' \<in> set (columns df) \<and> e \<notin> set sentinels
      then filter (\<lambda>r. norm_text (r ''Email_ID'') = e) (rows df) else [])"
proof (cases "''Email_ID'' \<in> set (columns df) \<and> e \<notin> set sentinels")
  case True
  then have ne: "e \<noteq> []" using empty_is_sentinel by auto
  show ?thesis
  proof (cases "\<exists>r\<in>set (rows df). norm_text (r ''Email_ID'') = e")
    case True
    with \<open>''Email_ID'' \<in> set (columns df) \<and> e \<notin> set sentinels\<close> ne show ?thesis
      by (auto simp: email_matches_def Let_def filter_empty_conv)
  next
    case False
    then have "filter (\<lambda>r. norm_text (r ''Email_ID'') = e) (rows df) = []"
      by (simp add: filter_empty_conv)
    with False show ?thesis
      by (auto simp: email_matches_def Let_def)
  qed
next
  case False
  then show ?thesis
    by (auto simp: email_matches_def Let_def)
qed

lemma name_phone_matches_Some:
  "name_phone_matches df (Some n) (Some p) =
     (if ''Candidate_Name'' \<in> set (columns df) \<and> ''Contact_Number'' \<in> set (columns df)
         \<and> n \<notin> set sentinels \<and> p \<notin> set sentinels
      then filter (\<lambda>r. df_name_norm r = n \<and> df_contact_norm r = p) (rows df) else [])"
proof -
  have f: "filter (\<lambda>r. valid_name_contact r \<and> df_name_norm r = n \<and> df_contact_norm r = p) (rows df)
           = (if n \<notin> set sentinels \<and> p \<notin> set sentinels
              then filter (\<lambda>r. df_name_norm r = n \<and> df_contact_norm r = p) (rows df) else [])"
    by (auto simp: valid_name_contact_def filter_empty_conv intro: filter_cong)
  have e: "\<not> list_ex valid_name_contact (rows df) \<Longrightarrow>
           filter (\<lambda>r. valid_name_contact r \<and> df_name_norm r = n \<and> df_contact_norm r = p) (rows df) = []"
    by (auto simp: filter_empty_conv list_ex_iff)
  have ne: "n \<notin> set sentinels \<Longrightarrow> n \<noteq> []" "p \<notin> set sentinels \<Longrightarrow> p \<noteq> []"
    using empty_is_sentinel by auto
  show ?thesis
    using e f ne by (auto simp: name_phone_matches_def)
qed

lemma name_phone_matches_None:
  "name_phone_matches df None p = []" "name_phone_matches df n None = []"
  by (auto simp: name_phone_matches_def split: option.splits)

lemma name_vendor_matches_Some:
  "name_vendor_matches df (Some n) p vn =
     (if ''Candidate_Name'' \<in> set (columns df) \<and> ''Vendor_Name'' \<in> set (columns df)
         \<and> n \<notin> set sentinels \<and> \<not> present p \<and> vn \<noteq> []
      then filter (\<lambda>r. df_name_norm r = n) (rows df) else [])"
proof -
  have f: "filter (\<lambda>r. valid_name r \<and> df_name_norm r = n) (rows df)
           = (if n \<notin> set sentinels then filter (\<lambda>r. df_name_norm r = n) (rows df) else [])"
    by (auto simp: valid_name_def filter_empty_conv intro: filter_cong)
  have e: "\<not> list_ex valid_name (rows df) \<Longrightarrow>
           filter (\<lambda>r. valid_name r \<and> df_name_norm r = n) (rows df) = []"
    by (auto simp: filter_empty_conv list_ex_iff)
  have ne: "n \<notin> set sentinels \<Longrightarrow> n \<noteq> []"
    using empty_is_sentinel by auto
  show ?thesis
    using e f ne by (auto simp: name_vendor_matches_def)
qed

lemma name_vendor_matches_None: "name_vendor_matches df None p vn = []"
  by (simp add: name_vendor_matches_def)
text \<open>The sheet that an append saves.\<close>

lemma add_entry_cases:
  "add_entry today isd cd tt fb sim avg cv v psd ds file =
     (case (if isd then Remark ''Duplicate Profile''
            else inline_check cd v (load_for_append file)) of
        Blocked reason remark status \<Rightarrow> (file, (False, reason, remark, Some status))
      | Remark pr \<Rightarrow>
          (Sheet \<lparr>columns = order_columns (columns (append_row (load_for_append file)
                                 (fill_details today cd tt fb sim avg cv v psd pr ds))),
                  rows = rows (append_row (load_for_append file)
                                 (fill_details today cd tt fb sim avg cv v psd pr ds))\<rparr>,
           (True, [], Str pr, None)))"
  unfolding add_entry_def Let_def by (rule refl)

lemma appended_rows:
  "\<exists>g new. rows (append_row df (fill_details today cd tt fb sim avg cv v psd pr ds))
             = map g (rows df) @ [new]
     \<and> (\<forall>r c. c \<in> set (columns df) \<longrightarrow> g r c = r c)
     \<and> (\<forall>r c. c \<notin> set (columns df) \<longrightarrow> g r c = Str [] \<or> g r c = NaN)
     \<and> new ''Profile_Remark'' = Str pr
     \<and> new ''Resume_Screening_Status''
         = Str (if pr = ''Duplicate Profile'' then ''Duplicate Profile'' else ds)
     \<and> new ''Vendor_Name'' = Str v
     \<and> (new ''Email_ID'' = dict_get cd ''Email_ID'' (Str []) \<or> new ''Email_ID'' = NaN)
     \<and> (new ''Candidate_Name'' = dict_get cd ''Candidate_Name'' (Str [])
         \<or> new ''Candidate_Name'' = NaN)
     \<and> (new ''Contact_Number'' = dict_get cd ''Contact_Number'' (Str [])
         \<or> new ''Contact_Number'' = NaN)
     \<and> (\<forall>c. c \<in> set (keys cd) \<longrightarrow>
           c \<in> {''Email_ID'', ''Candidate_Name'', ''Contact_Number''} \<longrightarrow>
           new c = dict_get cd c (Str []))"
proof -
  let ?d = "fill_details today cd tt fb sim avg cv v psd pr ds"
  from append_row_rows[of df ?d] obtain g new where
    r: "rows (append_row df ?d) = map g (rows df) @ [new]"
    and old: "\<forall>r c. c \<in> set (columns df) \<longrightarrow> g r c = r c"
    and blank: "\<forall>r c. c \<notin> set (columns df) \<longrightarrow> g r c = Str [] \<or> g r c = NaN"
    and key: "\<forall>c. c \<in> set (keys ?d) \<longrightarrow> new c = dict_get ?d c (Str [])"
    and any: "\<forall>c. new c = dict_get ?d c (Str []) \<or> new c = NaN"
    by blast
  have 1: "new ''Profile_Remark'' = Str pr"
    using key keys_fill_details_remark[of today cd tt fb sim avg cv v psd pr ds]
    by (simp add: fill_details_remark)
  have 2: "new ''Resume_Screening_Status''
             = Str (if pr = ''Duplicate Profile'' then ''Duplicate Profile'' else ds)"
    using key keys_fill_details_status[of today cd tt fb sim avg cv v psd pr ds]
    by (simp only: fill_details_status)
  have 3: "new ''Vendor_Name'' = Str v"
    using key keys_fill_details_vendor[of today cd tt fb sim avg cv v psd pr ds]
    by (simp add: fill_details_vendor)
  have 4: "new ''Email_ID'' = dict_get cd ''Email_ID'' (Str []) \<or> new ''Email_ID'' = NaN"
    using any[rule_format, of "''Email_ID''"] by (simp only: fill_details_email)
  have 5: "new ''Candidate_Name'' = dict_get cd ''Candidate_Name'' (Str [])
           \<or> new ''Candidate_Name'' = NaN"
    using any[rule_format, of "''Candidate_Name''"] by (simp only: fill_details_name)
  have 6: "new ''Contact_Number'' = dict_get cd ''Contact_Number'' (Str [])
           \<or> new ''Contact_Number'' = NaN"
    using any[rule_format, of "''Contact_Number''"] by (simp only: fill_details_contact)
  have 7: "\<forall>c. c \<in> set (keys cd) \<longrightarrow>
           c \<in> {''Email_ID'', ''Candidate_Name'', ''Contact_Number''} \<longrightarrow>
           new c = dict_get cd c (Str [])"
  proof (intro allI impI)
    fix c assume c: "c \<in> set (keys cd)"
      and i: "c \<in> {''Email_ID'', ''Candidate_Name'', ''Contact_Number''}"
    from c have "c \<in> set (keys ?d)" by (rule keys_fill_details_mono)
    with key have "new c = dict_get ?d c (Str [])" by blast
    moreover from i have "dict_get ?d c (Str []) = dict_get cd c (Str [])"
      using fill_details_email[of today cd tt fb sim avg cv v psd pr ds "Str []"]
        fill_details_name[of today cd tt fb sim avg cv v psd pr ds "Str []"]
        fill_details_contact[of today cd tt fb sim avg cv v psd pr ds "Str []"]
      by blast
    ultimately show "new c = dict_get cd c (Str [])" by simp
  qed
  show ?thesis
    using r old blank 1 2 3 4 5 6 7 by blast
qed

lemma appended_columns:
  "set (keys cd) \<union> set first_columns \<union> set (columns df) \<union> set manual_columns
     \<subseteq> set (order_columns (columns (append_row df
                (fill_details today cd tt fb sim avg cv v psd pr ds))))"
proof -
  let ?d = "fill_details today cd tt fb sim avg cv v psd pr ds"
  have "set (keys cd) \<subseteq> set (keys ?d)"
    using keys_fill_details_mono by blast
  with append_row_columns[of ?d df] show ?thesis
    by (auto simp: set_order_columns)
qed

lemma classify_cases:
  "classify df vn key r ms = (ex, st, reason, rem) \<Longrightarrow>
     ex \<and> (reason = key @ ''_same_vendor'' \<or> reason = key @ ''_different_vendor'')"
  by (auto simp: classify_def split: option.splits if_splits)

lemma check_frame_reason:
  assumes "check_frame cd v df = (ex, st, reason, rem)"
  shows "reason \<in> {[], ''email_same_vendor'', ''email_different_vendor'',
           ''name_and_phone_same_vendor'', ''name_and_phone_different_vendor'',
           ''name_and_vendor_same_vendor''}
         \<and> (ex \<longleftrightarrow> reason \<noteq> [])"
  using assms unfolding check_frame_def Let_def
  by (auto split: list.splits option.splits dest!: classify_cases simp: not_in_tracker_def)

lemma check_reason:
  assumes "check_candidate_status_in_tracker cd v file = (ex, st, reason, rem)"
  shows "reason \<in> {[], ''email_same_vendor'', ''email_different_vendor'',
           ''name_and_phone_same_vendor'', ''name_and_phone_different_vendor'',
           ''name_and_vendor_same_vendor''}
         \<and> (ex \<longleftrightarrow> reason \<noteq> [])"
proof (cases "\<exists>df. file = Sheet df \<and> \<not> df_empty df")
  case True
  then obtain df where "file = Sheet df" "\<not> df_empty df" by blast
  with assms have "check_frame cd v df = (ex, st, reason, rem)"
    by (simp add: check_candidate_status_in_tracker_def)
  then show ?thesis by (rule check_frame_reason)
next
  case False
  with assms have "(ex, st, reason, rem) = not_in_tracker"
    by (cases "file") (auto simp: check_candidate_status_in_tracker_def)
  then show ?thesis by (simp add: not_in_tracker_def)
qed

lemma check_exists_suffix:
  assumes "check_candidate_status_in_tracker cd v file = (True, st, reason, rem)"
  shows "endswith reason ''_same_vendor'' \<or> endswith reason ''_different_vendor''"
proof -
  from check_reason[OF assms]
  have "reason \<in> {''email_same_vendor'', ''email_different_vendor'',
           ''name_and_phone_same_vendor'', ''name_and_phone_different_vendor'',
           ''name_and_vendor_same_vendor''}" by auto
  then show ?thesis by (auto simp: endswith_def)
qed

lemma allow_status_change_ignored:
  "update_tracker_excel today cd tt fb sim avg cv v psd True file =
   update_tracker_excel today cd tt fb sim avg cv v psd False file"
proof -
  obtain ex st reason rem where c: "check_candidate_status_in_tracker cd v file = (ex, st, reason, rem)"
    by (metis prod_cases4)
  show ?thesis
  proof (cases ex)
    case True
    with c have "check_candidate_status_in_tracker cd v file = (True, st, reason, rem)" by simp
    then have "endswith reason ''_same_vendor'' \<or> endswith reason ''_different_vendor''"
      by (rule check_exists_suffix)
    with True show ?thesis by (auto simp: update_tracker_excel_def c Let_def)
  next
    case False
    then show ?thesis by (simp add: update_tracker_excel_def c Let_def)
  qed
qed


lemmas text_defs = is_space_def strip_def lower_char_def lower_def endswith_def re_sub_separators_def
lemmas field_defs = sentinels_def norm_text_def norm_field_def norm_contact_def vendor_norm_def
  existing_vendor_def same_vendor_def df_name_norm_def df_contact_norm_def valid_name_contact_def
  valid_name_def dict_get_def row_get_def df_empty_def
lemmas check_defs = email_matches_def name_phone_matches_def name_vendor_matches_def classify_def
  check_frame_def check_candidate_status_in_tracker_def not_in_tracker_def

lemma check_jane_acme:
  "check_candidate_status_in_tracker jane ''Acme'' (Sheet acme_sheet) =
     (True, Some (Str ''Shortlisted''), ''email_same_vendor'', Str ''Unique Profile'')"
  by (simp add: jane_def acme_sheet_def row_of_def text_defs field_defs check_defs)

text \<open>
  C1 (the code does not do it). The claim: a candidate already stored with a final status by
  a vendor, submitted again by that vendor with \<^verbatim>\<open>allow_status_change=True\<close>, has the stored
  row overwritten in place and the call returns \<^verbatim>\<open>"status_updated"\<close>. The code: every reason
  that \<^verbatim>\<open>check_candidate_status_in_tracker\<close> returns for an existing candidate ends in
  \<^verbatim>\<open>_same_vendor\<close> or \<^verbatim>\<open>_different_vendor\<close>, so the \<^verbatim>\<open>return\<close> of line 215 comes before the
  override of lines 228-277 and the flag changes nothing (\<open>allow_status_change_ignored\<close>).
  Here Jane, shortlisted for Acme, is submitted again by Acme as rejected with the override
  on: the call is blocked and the tracker is as it was.
\<close>

theorem override_is_blocked:
  "update_tracker_excel today jane ''rejected'' feedback similarity_score average_score []
       ''Acme'' NoDate True (Sheet acme_sheet) =
     (Sheet acme_sheet,
      (False, ''email_same_vendor'', Str ''Unique Profile'', Some (Str ''Shortlisted'')))"
  by (simp add: update_tracker_excel_def check_jane_acme endswith_def)
lemma update_missing:
  "update_tracker_excel today cd tt fb sim avg cv v psd allow Missing =
     (let ds = (if lower tt = ''shortlisted'' then ''Shortlisted'' else ''Rejected'');
          df' = append_row empty_frame
                  (fill_details today cd tt fb sim avg cv v psd ''Unique Profile'' ds)
      in (Sheet \<lparr>columns = order_columns (columns df'), rows = rows df'\<rparr>,
          (True, [], Str ''Unique Profile'', None)))"
  by (simp add: update_tracker_excel_def check_candidate_status_in_tracker_def not_in_tracker_def
        add_entry_def load_for_append_def inline_check_def empty_frame_def df_empty_def Let_def)

lemma keys_position_first:
  "keys (fill_details today position_first tt fb sim avg cv v psd pr ds) =
     [''Position'', ''Email_ID'', ''Candidate_Name'', ''Vendor_Name'', ''Profile_Shared_Date'',
      ''Profile_Remark'', ''Resume_Screening_Feedback'', ''Similarity_Score'', ''Average_Score'',
      ''Shortlisted_CV_Path'', ''Resume_Screening_Status'', ''Screening_Date'',
      ''R1_Schedule_Date'', ''R1_Panel_Name'', ''R1_Feedback'', ''R1_Status'',
      ''R2_Schedule_Date'', ''R2_Panel_Name'', ''R2_Feedback'', ''R2_Status'',
      ''CV_Conversion_Status'', ''CV_Converted_Path'']"
  by (simp add: fill_details_def position_first_def manual_columns_def keys_def)

lemma order_position_first:
  "order_columns
     [''Vendor_Name'', ''Profile_Shared_Date'', ''Profile_Remark'', ''Position'', ''Email_ID'',
      ''Candidate_Name'', ''Resume_Screening_Feedback'', ''Similarity_Score'', ''Average_Score'',
      ''Shortlisted_CV_Path'', ''Resume_Screening_Status'', ''Screening_Date'',
      ''R1_Schedule_Date'', ''R1_Panel_Name'', ''R1_Feedback'', ''R1_Status'',
      ''R2_Schedule_Date'', ''R2_Panel_Name'', ''R2_Feedback'', ''R2_Status'',
      ''CV_Conversion_Status'', ''CV_Converted_Path''] =
     [''Vendor_Name'', ''Profile_Shared_Date'', ''Profile_Remark'', ''Email_ID'',
      ''Candidate_Name'', ''Position'', ''Resume_Screening_Feedback'', ''Similarity_Score'',
      ''Average_Score'', ''Shortlisted_CV_Path'', ''Resume_Screening_Status'', ''Screening_Date'',
      ''R1_Schedule_Date'', ''R1_Panel_Name'', ''R1_Feedback'', ''R1_Status'',
      ''R2_Schedule_Date'', ''R2_Panel_Name'', ''R2_Feedback'', ''R2_Status'',
      ''CV_Conversion_Status'', ''CV_Converted_Path'']"
  by (simp add: order_columns_def move_first_columns_def position_after_email_def
        manual_columns_last_def first_columns_def manual_columns_def list_insert_def
        list_index_def)

text \<open>
  C7 (the code does not do it). The claim: after an append the columns start with
  \<^verbatim>\<open>Vendor_Name, Profile_Shared_Date, Profile_Remark\<close>, \<^verbatim>\<open>Position\<close> comes immediately after
  \<^verbatim>\<open>Email_ID\<close> whenever both are there, and the manual columns come last. The code moves
  \<^verbatim>\<open>Position\<close> to \<^verbatim>\<open>email_idx + 1\<close>, where \<^verbatim>\<open>email_idx\<close> was taken before \<^verbatim>\<open>Position\<close> was
  removed from the list (lines 532-536): when \<^verbatim>\<open>Position\<close> stood before \<^verbatim>\<open>Email_ID\<close> it lands
  one place too far. Here the candidate's dictionary has \<^verbatim>\<open>Position\<close> as its first key and
  the tracker does not exist yet: \<^verbatim>\<open>Candidate_Name\<close> ends up between \<^verbatim>\<open>Email_ID\<close> and
  \<^verbatim>\<open>Position\<close>.
\<close>

theorem position_not_after_email:
  "\<exists>df. fst (update_tracker_excel today position_first tracker_type feedback similarity_score
               average_score cv_path vendor_name profile_shared_date allow_status_change Missing)
          = Sheet df
      \<and> columns df =
          [''Vendor_Name'', ''Profile_Shared_Date'', ''Profile_Remark'', ''Email_ID'',
           ''Candidate_Name'', ''Position'', ''Resume_Screening_Feedback'', ''Similarity_Score'',
           ''Average_Score'', ''Shortlisted_CV_Path'', ''Resume_Screening_Status'',
           ''Screening_Date'', ''R1_Schedule_Date'', ''R1_Panel_Name'', ''R1_Feedback'',
           ''R1_Status'', ''R2_Schedule_Date'', ''R2_Panel_Name'', ''R2_Feedback'', ''R2_Status'',
           ''CV_Conversion_Status'', ''CV_Converted_Path'']"
  by (simp add: update_missing Let_def append_row_def empty_frame_def df_empty_def concat_row_def
        keys_position_first first_columns_def order_position_first)
lemma update_corrupt:
  "update_tracker_excel today cd tt fb sim avg cv v psd allow Corrupt =
     (let ds = (if lower tt = ''shortlisted'' then ''Shortlisted'' else ''Rejected'');
          df' = append_row empty_frame
                  (fill_details today cd tt fb sim avg cv v psd ''Unique Profile'' ds)
      in (Sheet \<lparr>columns = order_columns (columns df'), rows = rows df'\<rparr>,
          (True, [], Str ''Unique Profile'', None)))"
  by (simp add: update_tracker_excel_def check_candidate_status_in_tracker_def not_in_tracker_def
        add_entry_def load_for_append_def inline_check_def empty_frame_def df_empty_def Let_def)

lemma fresh_record:
  fixes today cd tt fb sim avg cv v psd
  defines "ds \<equiv> (if lower tt = ''shortlisted'' then ''Shortlisted'' else ''Rejected'')"
  defines "df' \<equiv> append_row empty_frame
                   (fill_details today cd tt fb sim avg cv v psd ''Unique Profile'' ds)"
  shows "\<exists>new. rows df' = [new]
           \<and> new ''Profile_Remark'' = Str ''Unique Profile''
           \<and> new ''Resume_Screening_Status'' = Str ds
           \<and> new ''Vendor_Name'' = Str v"
proof -
  let ?d = "fill_details today cd tt fb sim avg cv v psd ''Unique Profile'' ds"
  let ?all = "first_columns @ filter (\<lambda>col. col \<notin> set first_columns) (keys ?d)"
  let ?new = "\<lambda>c. if c \<in> set ?all then dict_get ?d c (Str []) else NaN"
  have r: "rows df' = [?new]"
    by (simp add: df'_def append_row_def empty_frame_def df_empty_def concat_row_def Let_def)
  have val: "c \<in> set (keys ?d) \<Longrightarrow> ?new c = dict_get ?d c (Str [])" for c
    by auto
  have "?new ''Profile_Remark'' = Str ''Unique Profile''"
    using val[OF keys_fill_details_remark] by (simp only: fill_details_remark)
  moreover have "?new ''Resume_Screening_Status'' = Str ds"
    using val[OF keys_fill_details_status] by (simp only: fill_details_status) simp
  moreover have "?new ''Vendor_Name'' = Str v"
    using val[OF keys_fill_details_vendor] by (simp only: fill_details_vendor)
  ultimately show ?thesis
    unfolding r by blast
qed

text \<open>
  C8. A tracker file that does not exist or cannot be parsed is an empty table for every
  load, and no error reaches the caller: \<^verbatim>\<open>check_candidate_status_in_tracker\<close> returns
  \<^verbatim>\<open>(False, None, "", "")\<close>, and \<^verbatim>\<open>update_tracker_excel\<close> appends the submission as a
  new record with the remark \<^verbatim>\<open>Unique Profile\<close> and the requested status; the tracker
  afterwards holds that one row.
\<close>

theorem missing_or_unreadable_tracker_is_empty:
  "check_candidate_status_in_tracker candidate_details vendor_name Missing
     = (False, None, [], Str [])
   \<and> check_candidate_status_in_tracker candidate_details vendor_name Corrupt
     = (False, None, [], Str [])
   \<and> (\<exists>df new.
         update_tracker_excel today candidate_details tracker_type feedback similarity_score
             average_score cv_path vendor_name profile_shared_date allow_status_change Missing
           = (Sheet df, (True, [], Str ''Unique Profile'', None))
         \<and> rows df = [new]
         \<and> new ''Profile_Remark'' = Str ''Unique Profile''
         \<and> new ''Resume_Screening_Status''
             = Str (if lower tracker_type = ''shortlisted'' then ''Shortlisted'' else ''Rejected'')
         \<and> new ''Vendor_Name'' = Str vendor_name)
   \<and> (\<exists>df new.
         update_tracker_excel today candidate_details tracker_type feedback similarity_score
             average_score cv_path vendor_name profile_shared_date allow_status_change Corrupt
           = (Sheet df, (True, [], Str ''Unique Profile'', None))
         \<and> rows df = [new]
         \<and> new ''Profile_Remark'' = Str ''Unique Profile''
         \<and> new ''Resume_Screening_Status''
             = Str (if lower tracker_type = ''shortlisted'' then ''Shortlisted'' else ''Rejected'')
         \<and> new ''Vendor_Name'' = Str vendor_name)"
proof -
  have c: "check_candidate_status_in_tracker candidate_details vendor_name Missing
             = (False, None, [], Str [])"
          "check_candidate_status_in_tracker candidate_details vendor_name Corrupt
             = (False, None, [], Str [])"
    by (simp_all add: check_candidate_status_in_tracker_def not_in_tracker_def)
  from fresh_record[of today candidate_details tracker_type feedback similarity_score
         average_score cv_path vendor_name profile_shared_date]
  obtain new where new:
    "rows (append_row empty_frame
             (fill_details today candidate_details tracker_type feedback similarity_score
                average_score cv_path vendor_name profile_shared_date ''Unique Profile''
                (if lower tracker_type = ''shortlisted'' then ''Shortlisted'' else ''Rejected'')))
       = [new]"
    "new ''Profile_Remark'' = Str ''Unique Profile''"
    "new ''Resume_Screening_Status''
       = Str (if lower tracker_type = ''shortlisted'' then ''Shortlisted'' else ''Rejected'')"
    "new ''Vendor_Name'' = Str vendor_name"
    by blast
  show ?thesis
    using c new by (simp add: update_missing update_corrupt Let_def)
qed


lemma lower_strip_empty: "lower (strip []) = []"
  by (simp add: text_defs)





lemma stored_vendor_present:
  "''Vendor_Name'' \<in> set (columns df) \<Longrightarrow> stored_vendor df r = existing_vendor r"
  by (simp add: stored_vendor_def existing_vendor_def row_get_def)

lemma stored_vendor_absent:
  "''Vendor_Name'' \<notin> set (columns df) \<Longrightarrow> stored_vendor df r = []"
  by (simp add: stored_vendor_def row_get_def)

lemma same_vendor_stored:
  "''Vendor_Name'' \<in> set (columns df) \<Longrightarrow>
   same_vendor vn r \<longleftrightarrow> vn \<noteq> [] \<and> stored_vendor df r = vn"
  by (auto simp: same_vendor_def stored_vendor_present)




lemma find_Nil_case: "(case [] of [] \<Rightarrow> a | x # xs \<Rightarrow> f x xs) = a"
  by simp


lemma spec_duplicate_eq:
  "spec_duplicate df vendor key r0 ms = classify df (vendor_norm vendor) key r0 ms"
proof (cases "''Vendor_Name'' \<in> set (columns df)")
  case True
  then have "find (\<lambda>r. vendor_norm vendor \<noteq> [] \<and> stored_vendor df r = vendor_norm vendor) ms
           = find (same_vendor (vendor_norm vendor)) ms"
    by (intro find_cong refl) (simp add: same_vendor_stored)
  with True show ?thesis by (simp add: spec_duplicate_def classify_def)
next
  case False
  then have "find (\<lambda>r. vendor_norm vendor \<noteq> [] \<and> stored_vendor df r = vendor_norm vendor) ms = None"
    by (auto simp: find_None_iff stored_vendor_absent)
  with False show ?thesis by (simp add: spec_duplicate_def classify_def)
qed


lemma check_frame_empty: "df_empty df \<Longrightarrow> check_frame cd vendor df = not_in_tracker"
proof -
  assume e: "df_empty df"
  have "email_matches df x = []" for x
    using e by (cases x) (auto simp: email_matches_None email_matches_Some df_empty_def)
  moreover have "name_phone_matches df n p = []" for n p
    using e by (cases n; cases p)
      (auto simp: name_phone_matches_None name_phone_matches_Some df_empty_def)
  moreover have "name_vendor_matches df n p vn = []" for n p vn
    using e by (cases n) (auto simp: name_vendor_matches_None name_vendor_matches_Some df_empty_def)
  ultimately show ?thesis by (simp add: check_frame_def)
qed

lemma check_sheet: "check_candidate_status_in_tracker cd vendor (Sheet df) = check_frame cd vendor df"
  by (simp add: check_candidate_status_in_tracker_def check_frame_empty)



lemma of_vendor_same:
  "''Vendor_Name'' \<in> set (columns df) \<Longrightarrow> of_vendor df vendor r = same_vendor (vendor_norm vendor) r"
  by (auto simp: of_vendor_def same_vendor_stored)


lemma classify_of_vendor:
  "classify df (vendor_norm vendor) key r0 ms =
     (case find (of_vendor df vendor) ms of
        Some r \<Rightarrow>
          (True, Some (row_get df r ''Resume_Screening_Status'' (Str ''Unknown'')),
           key @ ''_same_vendor'', row_get df r ''Profile_Remark'' (Str []))
      | None \<Rightarrow>
          (True, Some (row_get df r0 ''Resume_Screening_Status'' (Str ''Unknown'')),
           key @ ''_different_vendor'', row_get df r0 ''Profile_Remark'' (Str [])))"
  using spec_duplicate_eq[of df vendor key r0 ms, symmetric]
  by (simp add: spec_duplicate_def of_vendor_def[abs_def])

lemma name_vendor_find:
  "find (same_vendor (vendor_norm vendor)) (name_vendor_matches df n p (vendor_norm vendor))
     = find (of_vendor df vendor) (name_vendor_matches df n p (vendor_norm vendor))"
proof (cases "''Vendor_Name'' \<in> set (columns df)")
  case True
  then show ?thesis by (intro find_cong refl) (simp add: of_vendor_same)
next
  case False
  then have "name_vendor_matches df n p (vendor_norm vendor) = []"
    by (cases n) (simp_all add: name_vendor_matches_None name_vendor_matches_Some)
  then show ?thesis by simp
qed

lemma endswith_same_vendor: "endswith (key @ ''_same_vendor'') ''_same_vendor''"
  by (simp add: endswith_def)

lemma endswith_different_vendor:
  "endswith (key @ ''_different_vendor'') ''_different_vendor''"
  by (simp add: endswith_def)

lemma unique_not_different: "\<not> endswith [] ''_different_vendor''"
  by (simp add: endswith_def)


lemma check_by_email:
  assumes "email_matches df (norm_field (dict_get cd ''Email_ID'' (Str []))) = r0 # rs"
  shows "resolver_matches cd vendor df = r0 # rs"
    and "check_candidate_status_in_tracker cd vendor (Sheet df) =
           (case find (of_vendor df vendor) (r0 # rs) of
              Some r \<Rightarrow>
                (True, Some (row_get df r ''Resume_Screening_Status'' (Str ''Unknown'')),
                 ''email_same_vendor'', row_get df r ''Profile_Remark'' (Str []))
            | None \<Rightarrow>
                (True, Some (row_get df r0 ''Resume_Screening_Status'' (Str ''Unknown'')),
                 ''email_different_vendor'', row_get df r0 ''Profile_Remark'' (Str [])))"
  using assms
  by (simp_all add: resolver_matches_def check_sheet check_frame_def classify_of_vendor
        split: option.splits)

lemma check_by_name_phone:
  assumes "email_matches df (norm_field (dict_get cd ''Email_ID'' (Str []))) = []"
    and "name_phone_matches df (norm_field (dict_get cd ''Candidate_Name'' (Str [])))
           (norm_contact (dict_get cd ''Contact_Number'' (Str []))) = r0 # rs"
  shows "resolver_matches cd vendor df = r0 # rs"
    and "check_candidate_status_in_tracker cd vendor (Sheet df) =
           (case find (of_vendor df vendor) (r0 # rs) of
              Some r \<Rightarrow>
                (True, Some (row_get df r ''Resume_Screening_Status'' (Str ''Unknown'')),
                 ''name_and_phone_same_vendor'', row_get df r ''Profile_Remark'' (Str []))
            | None \<Rightarrow>
                (True, Some (row_get df r0 ''Resume_Screening_Status'' (Str ''Unknown'')),
                 ''name_and_phone_different_vendor'', row_get df r0 ''Profile_Remark'' (Str [])))"
  using assms
  by (simp_all add: resolver_matches_def check_sheet check_frame_def classify_of_vendor
        split: option.splits)

lemma check_by_name_vendor:
  assumes "email_matches df (norm_field (dict_get cd ''Email_ID'' (Str []))) = []"
    and "name_phone_matches df (norm_field (dict_get cd ''Candidate_Name'' (Str [])))
           (norm_contact (dict_get cd ''Contact_Number'' (Str []))) = []"
  shows "resolver_matches cd vendor df =
           name_vendor_matches df (norm_field (dict_get cd ''Candidate_Name'' (Str [])))
             (norm_contact (dict_get cd ''Contact_Number'' (Str []))) (vendor_norm vendor)"
    and "check_candidate_status_in_tracker cd vendor (Sheet df) =
           (case find (of_vendor df vendor) (resolver_matches cd vendor df) of
              Some r \<Rightarrow>
                (True, Some (row_get df r ''Resume_Screening_Status'' (Str ''Unknown'')),
                 ''name_and_vendor_same_vendor'', row_get df r ''Profile_Remark'' (Str []))
            | None \<Rightarrow> not_in_tracker)"
  using assms
  by (simp_all add: resolver_matches_def check_sheet check_frame_def name_vendor_find)


lemma update_blocked:
  assumes "check_candidate_status_in_tracker cd vendor file = (True, st, reason, rem)"
    and "endswith reason ''_same_vendor''"
  shows "update_tracker_excel today cd tt fb sim avg cv vendor psd allow file
           = (file, (False, reason, rem, st))"
  using assms by (simp add: update_tracker_excel_def)

lemma same_vendor_wins_aux:
  assumes chk: "check_candidate_status_in_tracker cd vendor (Sheet df) =
                  (case find P ms of Some r \<Rightarrow> (True, Some (S r), sr, R r) | None \<Rightarrow> other)"
    and sr: "endswith sr ''_same_vendor''" "\<not> endswith sr ''_different_vendor''"
    and other: "endswith (fst (snd (snd other))) ''_different_vendor'' \<Longrightarrow> ms \<noteq> []"
  shows "((\<exists>r\<in>set ms. P r) \<longrightarrow>
           (\<exists>r reason. find P ms = Some r \<and> endswith reason ''_same_vendor''
              \<and> check_candidate_status_in_tracker cd vendor (Sheet df)
                  = (True, Some (S r), reason, R r)
              \<and> update_tracker_excel today cd tt fb sim avg cv vendor psd allow (Sheet df)
                  = (Sheet df, (False, reason, R r, Some (S r)))))
       \<and> (endswith (fst (snd (snd (check_candidate_status_in_tracker cd vendor (Sheet df)))))
             ''_different_vendor''
           \<longrightarrow> ms \<noteq> [] \<and> (\<forall>r\<in>set ms. \<not> P r))"
proof (cases "find P ms")
  case None
  then have no: "\<forall>r\<in>set ms. \<not> P r" by (simp add: find_None_iff)
  from None chk have "check_candidate_status_in_tracker cd vendor (Sheet df) = other" by simp
  with other no show ?thesis by auto
next
  case (Some r)
  with chk have c: "check_candidate_status_in_tracker cd vendor (Sheet df)
                      = (True, Some (S r), sr, R r)" by simp
  from update_blocked[OF c sr(1)]
  have u: "update_tracker_excel today cd tt fb sim avg cv vendor psd allow (Sheet df)
             = (Sheet df, (False, sr, R r, Some (S r)))" .
  from c sr(2) have "\<not> endswith (fst (snd (snd (check_candidate_status_in_tracker cd vendor (Sheet df)))))
             ''_different_vendor''" by simp
  with Some c u sr(1) show ?thesis by blast
qed


text \<open>
  C6. Whenever a row of the resolver's match set is of the submitting vendor (same
  normalised, non-empty vendor), the classification is the same-vendor duplicate, with the
  status of the first such row, also when other rows of the match set are of other vendors;
  \<open>update_tracker_excel\<close> then blocks with that status and leaves the tracker as it is. A
  different-vendor duplicate is returned only for a match set without a row of the
  submitting vendor.
\<close>

theorem same_vendor_wins:
  "((\<exists>r\<in>set (resolver_matches candidate_details vendor_name df). of_vendor df vendor_name r) \<longrightarrow>
      (\<exists>r reason.
          find (of_vendor df vendor_name) (resolver_matches candidate_details vendor_name df)
            = Some r
        \<and> endswith reason ''_same_vendor''
        \<and> check_candidate_status_in_tracker candidate_details vendor_name (Sheet df)
            = (True, Some (row_get df r ''Resume_Screening_Status'' (Str ''Unknown'')), reason,
               row_get df r ''Profile_Remark'' (Str []))
        \<and> update_tracker_excel today candidate_details tracker_type feedback similarity_score
              average_score cv_path vendor_name profile_shared_date allow_status_change (Sheet df)
            = (Sheet df, (False, reason, row_get df r ''Profile_Remark'' (Str []),
                          Some (row_get df r ''Resume_Screening_Status'' (Str ''Unknown''))))))
   \<and> (endswith (fst (snd (snd (check_candidate_status_in_tracker candidate_details vendor_name
                                   (Sheet df))))) ''_different_vendor''
      \<longrightarrow> resolver_matches candidate_details vendor_name df \<noteq> []
          \<and> (\<forall>r\<in>set (resolver_matches candidate_details vendor_name df).
                \<not> of_vendor df vendor_name r))"
proof (cases "email_matches df (norm_field (dict_get candidate_details ''Email_ID'' (Str [])))")
  case (Cons r0 rs)
  note c = check_by_email[OF Cons, of vendor_name]
  have s: "endswith ''email_same_vendor'' ''_same_vendor''"
          "\<not> endswith ''email_same_vendor'' ''_different_vendor''"
    by (simp_all add: endswith_def)
  show ?thesis
    unfolding c(1)
    by (rule same_vendor_wins_aux[where sr = "''email_same_vendor''", OF c(2) s]) simp
next
  case e: Nil
  show ?thesis
  proof (cases "name_phone_matches df
                  (norm_field (dict_get candidate_details ''Candidate_Name'' (Str [])))
                  (norm_contact (dict_get candidate_details ''Contact_Number'' (Str [])))")
    case (Cons r0 rs)
    note c = check_by_name_phone[OF e Cons, of vendor_name]
    have s: "endswith ''name_and_phone_same_vendor'' ''_same_vendor''"
            "\<not> endswith ''name_and_phone_same_vendor'' ''_different_vendor''"
      by (simp_all add: endswith_def)
    show ?thesis
      unfolding c(1)
      by (rule same_vendor_wins_aux[where sr = "''name_and_phone_same_vendor''", OF c(2) s]) simp
  next
    case Nil
    note c = check_by_name_vendor[OF e Nil, of vendor_name]
    have s: "endswith ''name_and_vendor_same_vendor'' ''_same_vendor''"
            "\<not> endswith ''name_and_vendor_same_vendor'' ''_different_vendor''"
      by (simp_all add: endswith_def)
    have o: "\<not> endswith (fst (snd (snd not_in_tracker))) ''_different_vendor''"
      by (simp add: not_in_tracker_def endswith_def)
    show ?thesis
      by (rule same_vendor_wins_aux[where sr = "''name_and_vendor_same_vendor''", OF c(2) s])
         (simp add: o)
  qed
qed



theorem same_vendor_wins_witness:
  "\<exists>reason. endswith reason ''_same_vendor''
     \<and> check_candidate_status_in_tracker jane ''Acme'' (Sheet mixed_sheet)
         = (True, Some (Str ''Duplicate Profile''), reason, Str ''Duplicate Profile'')"
proof -
  define second where
    "second = row_of [(''Vendor_Name'', Str ''Acme''), (''Email_ID'', Str ''a@x''),
                      (''Resume_Screening_Status'', Str ''Duplicate Profile''),
                      (''Profile_Remark'', Str ''Duplicate Profile'')]"
  define first where
    "first = row_of [(''Vendor_Name'', Str ''Beta''), (''Email_ID'', Str ''a@x''),
                      (''Resume_Screening_Status'', Str ''Rejected''),
                      (''Profile_Remark'', Str ''Unique Profile'')]"
  have rs: "rows mixed_sheet = [first, second]"
    and cs: "columns mixed_sheet
               = [''Vendor_Name'', ''Email_ID'', ''Resume_Screening_Status'', ''Profile_Remark'']"
    by (simp_all add: mixed_sheet_def first_def second_def)
  have n: "norm_field (dict_get jane ''Email_ID'' (Str [])) = Some ''a@x''"
    by (simp add: jane_def dict_get_def norm_field_def norm_text_def text_defs)
  have e: "norm_text (first ''Email_ID'') = ''a@x''" "norm_text (second ''Email_ID'') = ''a@x''"
    by (simp_all add: first_def second_def row_of_def dict_get_def norm_text_def text_defs)
  have u: "''a@x'' \<notin> set sentinels"
    by (simp add: sentinels_def)
  have ms: "resolver_matches jane ''Acme'' mixed_sheet = [first, second]"
    by (simp add: resolver_matches_def n email_matches_Some cs rs e u)
  have o1: "\<not> of_vendor mixed_sheet ''Acme'' first"
    by (simp add: of_vendor_def stored_vendor_def row_get_def cs first_def row_of_def dict_get_def
          vendor_norm_def text_defs)
  have o2: "of_vendor mixed_sheet ''Acme'' second"
    by (simp add: of_vendor_def stored_vendor_def row_get_def cs second_def row_of_def dict_get_def
          vendor_norm_def text_defs)
  have f: "find (of_vendor mixed_sheet ''Acme'') [first, second] = Some second"
    by (simp add: o1 o2)
  have ex: "\<exists>r\<in>set (resolver_matches jane ''Acme'' mixed_sheet). of_vendor mixed_sheet ''Acme'' r"
    unfolding ms using o2 by simp
  have v: "row_get mixed_sheet second ''Resume_Screening_Status'' (Str ''Unknown'')
             = Str ''Duplicate Profile''"
          "row_get mixed_sheet second ''Profile_Remark'' (Str []) = Str ''Duplicate Profile''"
    by (simp_all add: row_get_def cs second_def row_of_def dict_get_def)
  from same_vendor_wins[of jane "''Acme''" mixed_sheet] ex
  obtain r reason where r:
    "find (of_vendor mixed_sheet ''Acme'') (resolver_matches jane ''Acme'' mixed_sheet) = Some r"
    "endswith reason ''_same_vendor''"
    "check_candidate_status_in_tracker jane ''Acme'' (Sheet mixed_sheet)
       = (True, Some (row_get mixed_sheet r ''Resume_Screening_Status'' (Str ''Unknown'')), reason,
          row_get mixed_sheet r ''Profile_Remark'' (Str []))"
    by blast
  from r(1) have "r = second" unfolding ms f by simp
  with r(2,3) v show ?thesis by (intro exI[of _ reason]) simp
qed
lemma same_vendor_empty: "\<not> same_vendor [] r"
  by (simp add: same_vendor_def)

lemma find_same_vendor_empty: "find (same_vendor []) xs = None"
  by (simp add: find_None_iff same_vendor_def)

lemma inline_check_house:
  "vendor_norm v = [] \<Longrightarrow> inline_check cd v df = Remark ''Unique Profile''"
  by (simp add: inline_check_def inline_classify_def same_vendor_empty find_same_vendor_empty
        Let_def split: list.splits)

lemma of_vendor_house: "vendor_norm v = [] \<Longrightarrow> \<not> of_vendor df v r"
  by (simp add: of_vendor_def)

lemma find_of_vendor_house: "vendor_norm v = [] \<Longrightarrow> find (of_vendor df v) xs = None"
  by (simp add: find_None_iff of_vendor_def)

lemma check_house:
  assumes v: "vendor_norm v = []"
  shows "\<not> endswith (fst (snd (snd (check_candidate_status_in_tracker cd v file)))) ''_same_vendor''
       \<and> (if matched_by_email_or_phone cd file
           then fst (check_candidate_status_in_tracker cd v file)
                \<and> endswith (fst (snd (snd (check_candidate_status_in_tracker cd v file))))
                     ''_different_vendor''
           else check_candidate_status_in_tracker cd v file = (False, None, [], Str []))"
proof (cases "file")
  case Missing
  then show ?thesis
    by (simp add: check_candidate_status_in_tracker_def not_in_tracker_def endswith_def
          matched_by_email_or_phone_def)
next
  case Corrupt
  then show ?thesis
    by (simp add: check_candidate_status_in_tracker_def not_in_tracker_def endswith_def
          matched_by_email_or_phone_def)
next
  case (Sheet df)
  show ?thesis
  proof (cases "email_matches df (norm_field (dict_get cd ''Email_ID'' (Str [])))")
    case (Cons r0 rs)
    from check_by_email(2)[OF Cons, of v] find_of_vendor_house[OF v]
    have "check_candidate_status_in_tracker cd v (Sheet df) =
            (True, Some (row_get df r0 ''Resume_Screening_Status'' (Str ''Unknown'')),
             ''email_different_vendor'', row_get df r0 ''Profile_Remark'' (Str []))"
      by (simp add: of_vendor_house[OF v])
    then show ?thesis
      using Cons by (simp add: Sheet matched_by_email_or_phone_def endswith_def)
  next
    case e: Nil
    show ?thesis
    proof (cases "name_phone_matches df (norm_field (dict_get cd ''Candidate_Name'' (Str [])))
                    (norm_contact (dict_get cd ''Contact_Number'' (Str [])))")
      case (Cons r0 rs)
      from check_by_name_phone(2)[OF e Cons, of v] find_of_vendor_house[OF v]
      have "check_candidate_status_in_tracker cd v (Sheet df) =
              (True, Some (row_get df r0 ''Resume_Screening_Status'' (Str ''Unknown'')),
               ''name_and_phone_different_vendor'', row_get df r0 ''Profile_Remark'' (Str []))"
        by (simp add: of_vendor_house[OF v])
      then show ?thesis
        using Cons by (simp add: Sheet matched_by_email_or_phone_def endswith_def)
    next
      case Nil
      from check_by_name_vendor(2)[OF e Nil, of v] find_of_vendor_house[OF v]
      have "check_candidate_status_in_tracker cd v (Sheet df) = not_in_tracker"
        by simp
      then show ?thesis
        using e Nil
        by (simp add: Sheet matched_by_email_or_phone_def endswith_def not_in_tracker_def)
    qed
  qed
qed


lemma update_not_found:
  assumes "\<not> fst (check_candidate_status_in_tracker cd v file)"
  shows "update_tracker_excel today cd tt fb sim avg cv v psd allow file =
           add_entry today False cd tt fb sim avg cv v psd
             (if lower tt = ''shortlisted'' then ''Shortlisted'' else ''Rejected'') file"
  using assms by (auto simp: update_tracker_excel_def Let_def split: prod.splits)

lemma update_different_vendor:
  assumes "fst (check_candidate_status_in_tracker cd v file)"
    and "\<not> endswith (fst (snd (snd (check_candidate_status_in_tracker cd v file)))) ''_same_vendor''"
    and "endswith (fst (snd (snd (check_candidate_status_in_tracker cd v file)))) ''_different_vendor''"
  shows "update_tracker_excel today cd tt fb sim avg cv v psd allow file =
           add_entry today True cd tt fb sim avg cv v psd
             (if lower tt = ''shortlisted'' then ''Shortlisted'' else ''Rejected'') file"
  using assms by (auto simp: update_tracker_excel_def Let_def split: prod.splits)

text \<open>
  C10. A submission with an empty vendor name is never blocked as a same-vendor duplicate,
  by the check or by the append: the same-vendor test needs the submitting vendor and the
  stored vendor both non-empty. Such a submission is always appended. When the email tier
  or the name and phone tier matches (also against a row whose own vendor is empty) the
  check reports a different-vendor duplicate and the new row gets remark and status
  \<^verbatim>\<open>Duplicate Profile\<close>; otherwise (the fallback tier needs a vendor) the candidate is
  not in the tracker and the new row is a \<^verbatim>\<open>Unique Profile\<close> with the requested status.
\<close>

theorem house_submission_never_blocked:
  assumes "vendor_norm vendor_name = []"
  shows "\<exists>df' pr.
      update_tracker_excel today candidate_details tracker_type feedback similarity_score
          average_score cv_path vendor_name profile_shared_date allow_status_change file
        = (Sheet df', (True, [], Str pr, None))
    \<and> pr = (if matched_by_email_or_phone candidate_details file then ''Duplicate Profile''
            else ''Unique Profile'')
    \<and> rows df' \<noteq> []
    \<and> last (rows df') ''Profile_Remark'' = Str pr
    \<and> last (rows df') ''Resume_Screening_Status''
        = Str (if matched_by_email_or_phone candidate_details file then ''Duplicate Profile''
               else if lower tracker_type = ''shortlisted'' then ''Shortlisted'' else ''Rejected'')
    \<and> \<not> endswith (fst (snd (snd (check_candidate_status_in_tracker candidate_details
                                     vendor_name file)))) ''_same_vendor''
    \<and> (if matched_by_email_or_phone candidate_details file
        then fst (check_candidate_status_in_tracker candidate_details vendor_name file)
             \<and> endswith (fst (snd (snd (check_candidate_status_in_tracker candidate_details
                                           vendor_name file)))) ''_different_vendor''
        else check_candidate_status_in_tracker candidate_details vendor_name file
             = (False, None, [], Str []))"
proof -
  let ?ds = "if lower tracker_type = ''shortlisted'' then ''Shortlisted'' else ''Rejected''"
  let ?pr = "if matched_by_email_or_phone candidate_details file then ''Duplicate Profile''
             else ''Unique Profile''"
  let ?d = "fill_details today candidate_details tracker_type feedback similarity_score
              average_score cv_path vendor_name profile_shared_date ?pr ?ds"
  let ?a = "append_row (load_for_append file) ?d"
  let ?df = "\<lparr>columns = order_columns (columns ?a), rows = rows ?a\<rparr>"
  note c = check_house[OF assms, of candidate_details "file"]
  have upd: "update_tracker_excel today candidate_details tracker_type feedback similarity_score
          average_score cv_path vendor_name profile_shared_date allow_status_change file
        = (Sheet ?df, (True, [], Str ?pr, None))"
  proof (cases "matched_by_email_or_phone candidate_details file")
    case True
    with c have "fst (check_candidate_status_in_tracker candidate_details vendor_name file)"
      "\<not> endswith (fst (snd (snd (check_candidate_status_in_tracker candidate_details
                                     vendor_name file)))) ''_same_vendor''"
      "endswith (fst (snd (snd (check_candidate_status_in_tracker candidate_details
                                     vendor_name file)))) ''_different_vendor''"
      by simp_all
    from update_different_vendor[OF this] True show ?thesis
      by (simp add: add_entry_cases)
  next
    case False
    with c have "\<not> fst (check_candidate_status_in_tracker candidate_details vendor_name file)"
      by simp
    from update_not_found[OF this] False show ?thesis
      by (simp add: add_entry_cases inline_check_house[OF assms])
  qed
  from appended_rows[of "load_for_append file" today candidate_details tracker_type feedback
         similarity_score average_score cv_path vendor_name profile_shared_date ?pr ?ds]
  obtain g new where
    r: "rows ?a = map g (rows (load_for_append file)) @ [new]"
    and n: "new ''Profile_Remark'' = Str ?pr"
           "new ''Resume_Screening_Status''
              = Str (if ?pr = ''Duplicate Profile'' then ''Duplicate Profile'' else ?ds)"
    by blast
  have l: "rows ?df \<noteq> []" "last (rows ?df) = new"
    using r by simp_all
  have s: "last (rows ?df) ''Resume_Screening_Status''
        = Str (if matched_by_email_or_phone candidate_details file then ''Duplicate Profile''
               else ?ds)"
    unfolding l(2) n(2) by simp
  have p: "last (rows ?df) ''Profile_Remark'' = Str ?pr"
    unfolding l(2) n(1) by simp
  show ?thesis
    using upd l(1) p s c by blast
qed

theorem house_submission_never_blocked_witness:
  "\<exists>df'. update_tracker_excel ''2024-01-01'' jane ''shortlisted'' [] (Num ''0.9'') (Num ''0.8'')
            [] [] NoDate False (Sheet house_sheet)
          = (Sheet df', (True, [], Str ''Duplicate Profile'', None))
        \<and> last (rows df') ''Resume_Screening_Status'' = Str ''Duplicate Profile''"
proof -
  have v: "vendor_norm [] = []"
    by (simp add: vendor_norm_def)
  have n: "norm_field (dict_get jane ''Email_ID'' (Str [])) = Some ''a@x''"
    by (simp add: jane_def dict_get_def norm_field_def norm_text_def text_defs)
  have e: "email_matches house_sheet (Some ''a@x'') \<noteq> []"
    by (simp add: email_matches_Some house_sheet_def row_of_def dict_get_def norm_text_def
          sentinels_def text_defs)
  have m: "matched_by_email_or_phone jane (Sheet house_sheet)"
    by (simp add: matched_by_email_or_phone_def n e)
  from house_submission_never_blocked[OF v, of "''2024-01-01''" jane "''shortlisted''" "[]"
         "Num ''0.9''" "Num ''0.8''" "[]" NoDate False "Sheet house_sheet"] m
  show ?thesis by auto
qed












lemma load_for_append_stored:
  "rows (load_for_append file) = map (loaded_row (stored_frame file)) (rows (stored_frame file))"
proof (cases "file")
  case (Sheet df)
  then show ?thesis using rows_load_for_append[of df] by simp
qed (simp_all add: load_for_append_def empty_frame_def)

lemma columns_rename:
  "c \<noteq> ''Date_Shortlisted'' \<Longrightarrow> c \<in> set (columns df) \<Longrightarrow>
   c \<in> set (columns (rename_date_shortlisted df))"
  by (auto simp: rename_date_shortlisted_def Let_def)

lemma columns_load_keep:
  "c \<noteq> ''Date_Shortlisted'' \<Longrightarrow> c \<in> set (columns (stored_frame file)) \<Longrightarrow>
   c \<in> set (columns (load_for_append file))"
proof (cases "file")
  case (Sheet df)
  assume "c \<noteq> ''Date_Shortlisted''" "c \<in> set (columns (stored_frame file))"
  then show ?thesis
    using columns_load_for_append[of df] columns_rename[of c df] by (simp add: Sheet)
qed (simp_all add: empty_frame_def)

lemma loaded_row_keeps:
  assumes "c \<in> set (columns df)" "c \<noteq> ''Date_Shortlisted''"
    and "\<not> (c = ''Resume_Screening_Status'' \<and> remarked_duplicate df r)"
  shows "loaded_row df r c = r c"
proof -
  have m: "c \<in> set (columns (rename_date_shortlisted df))"
    using assms(1,2) by (simp add: columns_rename)
  have s: "''Date_Shortlisted'' \<in> set (columns df) \<and> ''Screening_Date'' \<notin> set (columns df)
           \<Longrightarrow> c \<noteq> ''Screening_Date''"
    using assms(1) by auto
  have pr: "(if ''Date_Shortlisted'' \<in> set (columns df) \<and> ''Screening_Date'' \<notin> set (columns df)
             then r(''Screening_Date'' := r ''Date_Shortlisted'') else r) ''Profile_Remark''
            = r ''Profile_Remark''"
    by simp
  have cols: "''Profile_Remark'' \<in> set (columns (rename_date_shortlisted df))
                \<longleftrightarrow> ''Profile_Remark'' \<in> set (columns df)"
             "''Resume_Screening_Status'' \<in> set (columns (rename_date_shortlisted df))
                \<longleftrightarrow> ''Resume_Screening_Status'' \<in> set (columns df)"
    by (auto simp: rename_date_shortlisted_def Let_def)
  show ?thesis
    using m s assms(3)
    by (auto simp: loaded_row_def Let_def pr cols remarked_duplicate_def)
qed

lemma loaded_row_duplicate:
  "remarked_duplicate df r \<Longrightarrow>
   loaded_row df r ''Resume_Screening_Status'' = Str ''Duplicate Profile''"
proof -
  assume d: "remarked_duplicate df r"
  have cols: "''Profile_Remark'' \<in> set (columns (rename_date_shortlisted df))"
             "''Resume_Screening_Status'' \<in> set (columns (rename_date_shortlisted df))"
    using d by (auto simp: remarked_duplicate_def columns_rename)
  have m: "''Resume_Screening_Status'' \<notin> set manual_columns"
    by (simp add: manual_columns_def)
  show ?thesis
    using d cols m by (simp add: loaded_row_def Let_def remarked_duplicate_def)
qed


text \<open>The two ways a call of \<open>update_tracker_excel\<close> ends.\<close>

lemma update_outcome:
  fixes today cd tt fb sim avg cv v psd allow tracker
  defines "ds \<equiv> (if lower tt = ''shortlisted'' then ''Shortlisted'' else ''Rejected'')"
  defines "res \<equiv> update_tracker_excel today cd tt fb sim avg cv v psd allow tracker"
  defines "chk \<equiv> check_candidate_status_in_tracker cd v tracker"
  shows "(\<not> fst (snd res) \<and> fst res = tracker)
       \<or> (\<exists>pr. res = (Sheet \<lparr>columns = order_columns (columns (append_row (load_for_append tracker)
                                   (fill_details today cd tt fb sim avg cv v psd pr ds))),
                            rows = rows (append_row (load_for_append tracker)
                                   (fill_details today cd tt fb sim avg cv v psd pr ds))\<rparr>,
                     (True, [], Str pr, None))
             \<and> \<not> (fst chk \<and> endswith (fst (snd (snd chk))) ''_same_vendor'')
             \<and> (fst chk \<longrightarrow> pr = ''Duplicate Profile'')
             \<and> (\<not> fst chk \<longrightarrow> inline_check cd v (load_for_append tracker) = Remark pr))"
proof (cases "fst chk")
  case False
  then have u: "res = add_entry today False cd tt fb sim avg cv v psd ds tracker"
    unfolding res_def ds_def chk_def by (rule update_not_found)
  show ?thesis
  proof (cases "inline_check cd v (load_for_append tracker)")
    case (Blocked reason remark status)
    then show ?thesis by (simp add: u add_entry_cases)
  next
    case (Remark pr)
    with False show ?thesis by (simp add: u add_entry_cases)
  qed
next
  case True
  obtain st reason rem where c: "chk = (True, st, reason, rem)"
    using True by (cases chk) auto
  then have sfx: "endswith reason ''_same_vendor'' \<or> endswith reason ''_different_vendor''"
    unfolding chk_def by (rule check_exists_suffix)
  show ?thesis
  proof (cases "endswith reason ''_same_vendor''")
    case True
    with c have "res = (tracker, (False, reason, rem, st))"
      unfolding res_def chk_def by (simp add: update_blocked)
    then show ?thesis by simp
  next
    case False
    with sfx c have "res = add_entry today True cd tt fb sim avg cv v psd ds tracker"
      unfolding res_def ds_def chk_def by (intro update_different_vendor) simp_all
    with False c show ?thesis by (simp add: add_entry_cases)
  qed
qed


lemma update_frame:
  fixes today cd tt fb sim avg cv v psd allow tracker
  defines "res \<equiv> update_tracker_excel today cd tt fb sim avg cv v psd allow tracker"
  defines "old \<equiv> stored_frame tracker"
  shows "(\<not> fst (snd res) \<longrightarrow> fst res = tracker)
   \<and> (fst (snd res) \<longrightarrow>
        length (rows (stored_frame (fst res))) = length (rows old) + 1
      \<and> (\<forall>j c. j < length (rows old) \<and> c \<in> set (columns old) \<and> c \<noteq> ''Date_Shortlisted''
            \<longrightarrow> c \<in> set (columns (stored_frame (fst res)))
                \<and> (rows (stored_frame (fst res)) ! j) c
                    = (if c = ''Resume_Screening_Status'' \<and> remarked_duplicate old (rows old ! j)
                       then Str ''Duplicate Profile'' else (rows old ! j) c)))"
proof -
  let ?ds = "if lower tt = ''shortlisted'' then ''Shortlisted'' else ''Rejected''"
  from update_outcome[of today cd tt fb sim avg cv v psd allow tracker]
  consider (blocked) "\<not> fst (snd res)" "fst res = tracker"
    | (added) pr where
        "res = (Sheet \<lparr>columns = order_columns (columns (append_row (load_for_append tracker)
                                   (fill_details today cd tt fb sim avg cv v psd pr ?ds))),
                       rows = rows (append_row (load_for_append tracker)
                                   (fill_details today cd tt fb sim avg cv v psd pr ?ds))\<rparr>,
                (True, [], Str pr, None))"
    unfolding res_def by blast
  then show ?thesis
  proof cases
    case blocked
    then show ?thesis by simp
  next
    case (added pr)
    let ?d = "fill_details today cd tt fb sim avg cv v psd pr ?ds"
    let ?a = "append_row (load_for_append tracker) ?d"
    from appended_rows[of "load_for_append tracker" today cd tt fb sim avg cv v psd pr ?ds]
    obtain g new where
      r: "rows ?a = map g (rows (load_for_append tracker)) @ [new]"
      and keep: "\<forall>r c. c \<in> set (columns (load_for_append tracker)) \<longrightarrow> g r c = r c"
      by blast
    have r': "rows ?a = map (\<lambda>x. g (loaded_row old x)) (rows old) @ [new]"
      unfolding r load_for_append_stored old_def by simp
    have cols: "set (columns (load_for_append tracker)) \<subseteq> set (order_columns (columns ?a))"
      using appended_columns[of cd "load_for_append tracker" today tt fb sim avg cv v psd pr ?ds]
      by blast
    have f: "stored_frame (fst res) = \<lparr>columns = order_columns (columns ?a), rows = rows ?a\<rparr>"
      by (simp add: added)
    have len: "length (rows (stored_frame (fst res))) = length (rows old) + 1"
      by (simp add: f r')
    have cell: "c \<in> set (columns (stored_frame (fst res)))
                \<and> (rows (stored_frame (fst res)) ! j) c
                    = (if c = ''Resume_Screening_Status'' \<and> remarked_duplicate old (rows old ! j)
                       then Str ''Duplicate Profile'' else (rows old ! j) c)"
      if j: "j < length (rows old)" and c: "c \<in> set (columns old)" "c \<noteq> ''Date_Shortlisted''"
      for j c
    proof -
      have cl: "c \<in> set (columns (load_for_append tracker))"
        using c unfolding old_def by (simp add: columns_load_keep)
      have "(rows (stored_frame (fst res)) ! j) c = g (loaded_row old (rows old ! j)) c"
        using j by (simp add: f r' nth_append)
      also have "\<dots> = loaded_row old (rows old ! j) c"
        using keep cl by blast
      also have "\<dots> = (if c = ''Resume_Screening_Status'' \<and> remarked_duplicate old (rows old ! j)
                       then Str ''Duplicate Profile'' else (rows old ! j) c)"
        using c by (auto simp: loaded_row_keeps loaded_row_duplicate)
      finally show ?thesis
        using cl cols by (auto simp: f)
    qed
    have a: "fst (snd res)"
      by (simp add: added)
    have cell': "\<forall>j c. j < length (rows old) \<and> c \<in> set (columns old) \<and> c \<noteq> ''Date_Shortlisted''
            \<longrightarrow> c \<in> set (columns (stored_frame (fst res)))
                \<and> (rows (stored_frame (fst res)) ! j) c
                    = (if c = ''Resume_Screening_Status'' \<and> remarked_duplicate old (rows old ! j)
                       then Str ''Duplicate Profile'' else (rows old ! j) c)"
      using cell by blast
    from a have n: "(\<not> fst (snd res) \<longrightarrow> fst res = tracker)"
      by simp
    show ?thesis
      by (intro conjI impI n len cell')
  qed
qed

lemma stale_check:
  "check_candidate_status_in_tracker jane ''Acme'' (Sheet stale_sheet) = (False, None, [], Str [])"
  by (simp add: jane_def stale_sheet_def row_of_def text_defs field_defs check_defs)

lemma stale_inline:
  "inline_check jane ''Acme'' (load_for_append (Sheet stale_sheet)) = Remark ''Unique Profile''"
  by (simp add: inline_check_def load_for_append_def add_manual_columns_def
        mark_duplicate_status_def rename_date_shortlisted_def manual_columns_def set_col_def
        stale_sheet_def jane_def row_of_def email_matches_def name_phone_matches_def
        name_vendor_matches_def text_defs field_defs Let_def)


lemma stale_update_added:
  "fst (snd (update_tracker_excel ''2024-01-01'' jane ''shortlisted'' [] (Num ''0.9'')
               (Num ''0.8'') [] ''Acme'' NoDate False (Sheet stale_sheet)))"
proof -
  have "\<not> fst (check_candidate_status_in_tracker jane ''Acme'' (Sheet stale_sheet))"
    by (simp add: stale_check)
  from update_not_found[OF this] show ?thesis
    by (simp add: add_entry_cases stale_inline)
qed

text \<open>
  C2 as the specification states it: only an admin override changes a stored record, and
  every other call of \<open>update_tracker_excel\<close> leaves every field of every stored row as it
  was. Not so: a stored row remarked \<^verbatim>\<open>Duplicate Profile\<close> whose status is something else
  gets the status \<^verbatim>\<open>Duplicate Profile\<close> whenever another candidate is appended (lines
  293-297). Here Jane is appended as a new candidate of Acme, and the stored row of another
  candidate goes from \<^verbatim>\<open>Shortlisted\<close> to \<^verbatim>\<open>Duplicate Profile\<close>.
\<close>

theorem stored_row_changed_by_append:
  "fst (snd (update_tracker_excel ''2024-01-01'' jane ''shortlisted'' [] (Num ''0.9'')
               (Num ''0.8'') [] ''Acme'' NoDate False (Sheet stale_sheet)))
   \<and> (rows stale_sheet ! 0) ''Resume_Screening_Status'' = Str ''Shortlisted''
   \<and> (rows (stored_frame (fst (update_tracker_excel ''2024-01-01'' jane ''shortlisted'' []
                                  (Num ''0.9'') (Num ''0.8'') [] ''Acme'' NoDate False
                                  (Sheet stale_sheet)))) ! 0) ''Resume_Screening_Status''
       = Str ''Duplicate Profile''"
proof -
  have c: "''Resume_Screening_Status'' \<in> set (columns stale_sheet)"
         "0 < length (rows stale_sheet)"
         "(rows stale_sheet ! 0) ''Resume_Screening_Status'' = Str ''Shortlisted''"
    by (simp_all add: stale_sheet_def row_of_def dict_get_def)
  have d: "remarked_duplicate stale_sheet (rows stale_sheet ! 0)"
    by (simp add: remarked_duplicate_def stale_sheet_def row_of_def dict_get_def norm_text_def
          text_defs)
  from update_frame[of "''2024-01-01''" jane "''shortlisted''" "[]" "Num ''0.9''" "Num ''0.8''"
         "[]" "''Acme''" NoDate False "Sheet stale_sheet"] stale_update_added c d
  show ?thesis by simp
qed

text \<open>
  C2, amended. A call of \<open>update_tracker_excel\<close> that adds nothing (a same-vendor block)
  leaves the file as it is. A call that adds (a new candidate or a different-vendor
  duplicate) leaves one row more, and every stored row keeps its cell in every stored
  column other than the legacy column \<^verbatim>\<open>Date_Shortlisted\<close>, which is dropped, with one
  exception: a stored row whose remark reads \<^verbatim>\<open>duplicate profile\<close> has its
  \<^verbatim>\<open>Resume_Screening_Status\<close> set to \<^verbatim>\<open>Duplicate Profile\<close>.
\<close>

theorem stored_rows_after_update:
  "(\<not> fst (snd (update_tracker_excel today candidate_details tracker_type feedback
                   similarity_score average_score cv_path vendor_name profile_shared_date
                   allow_status_change file))
      \<longrightarrow> fst (update_tracker_excel today candidate_details tracker_type feedback
                 similarity_score average_score cv_path vendor_name profile_shared_date
                 allow_status_change file) = file)
   \<and> (fst (snd (update_tracker_excel today candidate_details tracker_type feedback
                   similarity_score average_score cv_path vendor_name profile_shared_date
                   allow_status_change file))
      \<longrightarrow> length (rows (stored_frame (fst (update_tracker_excel today candidate_details
                 tracker_type feedback similarity_score average_score cv_path vendor_name
                 profile_shared_date allow_status_change file))))
            = length (rows (stored_frame file)) + 1
        \<and> (\<forall>j c. j < length (rows (stored_frame file)) \<and> c \<in> set (columns (stored_frame file))
                  \<and> c \<noteq> ''Date_Shortlisted''
              \<longrightarrow> c \<in> set (columns (stored_frame (fst (update_tracker_excel today
                         candidate_details tracker_type feedback similarity_score average_score
                         cv_path vendor_name profile_shared_date allow_status_change file))))
                  \<and> (rows (stored_frame (fst (update_tracker_excel today candidate_details
                         tracker_type feedback similarity_score average_score cv_path
                         vendor_name profile_shared_date allow_status_change file))) ! j) c
                      = (if c = ''Resume_Screening_Status''
                            \<and> remarked_duplicate (stored_frame file) (rows (stored_frame file) ! j)
                         then Str ''Duplicate Profile''
                         else (rows (stored_frame file) ! j) c)))"
  by (rule update_frame)

theorem stored_rows_after_update_witness:
  "(rows (stored_frame (fst (update_tracker_excel ''2024-01-01'' jane ''shortlisted'' []
                                (Num ''0.9'') (Num ''0.8'') [] ''Acme'' NoDate False
                                (Sheet stale_sheet)))) ! 0) ''Email_ID'' = Str ''b@y''
   \<and> length (rows (stored_frame (fst (update_tracker_excel ''2024-01-01'' jane ''shortlisted''
                                [] (Num ''0.9'') (Num ''0.8'') [] ''Acme'' NoDate False
                                (Sheet stale_sheet))))) = 2"
proof -
  have c: "''Email_ID'' \<in> set (columns stale_sheet)"
         "length (rows stale_sheet) = 1"
         "(rows stale_sheet ! 0) ''Email_ID'' = Str ''b@y''"
    by (simp_all add: stale_sheet_def row_of_def dict_get_def)
  from stored_rows_after_update[of "''2024-01-01''" jane "''shortlisted''" "[]" "Num ''0.9''"
         "Num ''0.8''" "[]" "''Acme''" NoDate False "Sheet stale_sheet"] stale_update_added c
  show ?thesis by simp
qed






















































end
